theory Spec2Isabelle
  imports Main "HOL-Library.AList"
begin

section \<open>Python strings\<close>

text \<open>
  Text is a list of characters. A character of the model is one of the first 256 code
  points, which covers every literal of \<^verbatim>\<open>reproducibility.py\<close>. The white space
  of \<^verbatim>\<open>str.strip()\<close> and \<^verbatim>\<open>str.split()\<close> is what \<^verbatim>\<open>str.isspace\<close>
  accepts among these code points.
\<close>

definition isspace :: "char \<Rightarrow> bool" where
  "isspace c = (of_char c \<in> {9, 10, 11, 12, 13, 28, 29, 30, 31, 32, 133, 160 :: nat})"

text \<open>\<^verbatim>\<open>s.strip()\<close>\<close>

definition strip :: "string \<Rightarrow> string" where
  "strip s = rev (dropWhile isspace (rev (dropWhile isspace s)))"

text \<open>\<^verbatim>\<open>s.split(c)\<close> with a one-character separator: empty fields are kept.\<close>

fun split_on :: "char \<Rightarrow> string \<Rightarrow> string list" where
  "split_on c [] = [[]]"
| "split_on c (x # xs) =
     (if x = c then [] # split_on c xs
      else (case split_on c xs of [] \<Rightarrow> [[x]] | t # ts \<Rightarrow> (x # t) # ts))"

text \<open>
  \<^verbatim>\<open>s.split()\<close>: the maximal runs of characters that are not white space.
  \<open>split_ws_from cur s\<close> carries the run read so far.
\<close>

fun split_ws_from :: "string \<Rightarrow> string \<Rightarrow> string list" where
  "split_ws_from cur [] = (if cur = [] then [] else [cur])"
| "split_ws_from cur (x # xs) =
     (if isspace x
      then (if cur = [] then split_ws_from [] xs else cur # split_ws_from [] xs)
      else split_ws_from (cur @ [x]) xs)"

definition split_ws :: "string \<Rightarrow> string list" where
  "split_ws s = split_ws_from [] s"

text \<open>\<^verbatim>\<open>s.endswith(suffix)\<close>\<close>

definition endswith :: "string \<Rightarrow> string \<Rightarrow> bool" where
  "endswith s suf = (take (length suf) (rev s) = rev suf)"

text \<open>\<^verbatim>\<open>sep.join(xs)\<close>\<close>

fun str_join :: "string \<Rightarrow> string list \<Rightarrow> string" where
  "str_join sep [] = []"
| "str_join sep [x] = x"
| "str_join sep (x # y # ys) = x @ sep @ str_join sep (y # ys)"

section \<open>Paths\<close>

text \<open>\<^verbatim>\<open>os.path.join(a, b)\<close> and \<^verbatim>\<open>os.path.basename(p)\<close> of \<^verbatim>\<open>posixpath\<close>.\<close>

definition os_path_join :: "string \<Rightarrow> string \<Rightarrow> string" where
  "os_path_join a b =
     (if take 1 b = ''/'' then b
      else if a = [] \<or> endswith a ''/'' then a @ b
      else a @ ''/'' @ b)"

definition os_path_basename :: "string \<Rightarrow> string" where
  "os_path_basename p = rev (takeWhile (\<lambda>c. c \<noteq> CHR ''/'') (rev p))"

section \<open>Exceptions and processes\<close>

datatype exn =
    CalledProcessError
  | FileNotFoundError
  | FileExistsError
  | NotADirectoryError
  | IsADirectoryError
  | PermissionError
  | SameFileError
  | OSError
  | UnicodeDecodeError
  | IndexError
  | RuntimeError string

text \<open>
  The bytes a process writes are known through the text they decode to:
  \<open>Undecodable\<close> stands for every byte string that is not valid in the encoding.
\<close>

datatype bytes = Encoded string | Undecodable

text \<open>
  What \<^verbatim>\<open>subprocess.run\<close> meets: the process cannot be started (the raised
  exception), or it exits with a return code, its standard output and its standard error.
\<close>

datatype proc = Not_started exn | Exited int bytes bytes

text \<open>
  The \<^verbatim>\<open>CompletedProcess\<close> the program reads; the output is bytes, or text under
  \<^verbatim>\<open>text=True\<close>.
\<close>

record 'a completed =
  returncode :: int
  stdout :: 'a
  stderr :: 'a

section \<open>The clock\<close>

record datetime =
  year :: nat
  month :: nat
  day :: nat
  hour :: nat
  minute :: nat
  second :: nat

definition digit :: "nat \<Rightarrow> char" where
  "digit n = ''0123456789'' ! (n mod 10)"

definition pad2 :: "nat \<Rightarrow> string" where
  "pad2 n = [digit (n div 10), digit n]"

definition pad4 :: "nat \<Rightarrow> string" where
  "pad4 n = [digit (n div 1000), digit (n div 100), digit (n div 10), digit n]"

text \<open>\<^verbatim>\<open>dt.strftime("%Y%m%d_%H%M%S")\<close>, for a year of four digits.\<close>

definition strftime :: "datetime \<Rightarrow> string" where
  "strftime dt =
     pad4 (year dt) @ pad2 (month dt) @ pad2 (day dt) @ ''_'' @
     pad2 (hour dt) @ pad2 (minute dt) @ pad2 (second dt)"

section \<open>The world of a run\<close>

text \<open>
  The file system is the tree below the current working directory. A directory keeps its
  entries in the order \<^verbatim>\<open>os.listdir\<close> reports them. Metadata (times, permissions) and
  links are not part of the model.
\<close>

datatype node = File string | Dir "(string \<times> node) list"

text \<open>
  The collaborators the program only reads: the outcome of each external command (by
  shell flag and argument vector), the clock (the answer to the n-th call of
  \<^verbatim>\<open>datetime.now()\<close>), \<^verbatim>\<open>platform.system()\<close>, whether
  \<^verbatim>\<open>os.path.join(sys.prefix, "Scripts", "conda.bat")\<close> exists,
  \<^verbatim>\<open>os.getcwd()\<close> (absolute and normalised), and the message \<^verbatim>\<open>str(e)\<close> of
  an exception, which the model does not determine.
\<close>

record env =
  subprocess :: "bool \<Rightarrow> string list \<Rightarrow> proc"
  clock :: "nat \<Rightarrow> datetime"
  platform_system :: string
  conda_bat_exists :: bool
  getcwd :: string
  str_exn :: "exn \<Rightarrow> string"

text \<open>
  What the program changes: the tree below the working directory, the number of clock
  readings made so far, and the lines printed.
\<close>

record state =
  root :: node
  reads :: nat
  printed :: "string list"

text \<open>
  A step returns the value or the exception it raises, and in both cases the state it
  leaves behind.
\<close>

type_synonym 'a io = "state \<Rightarrow> (exn + 'a) \<times> state"

definition ret :: "'a \<Rightarrow> 'a io" where
  "ret x s = (Inr x, s)"

definition raise :: "exn \<Rightarrow> 'a io" where
  "raise e s = (Inl e, s)"

definition and_then :: "'a io \<Rightarrow> ('a \<Rightarrow> 'b io) \<Rightarrow> 'b io" where
  "and_then m k s = (case m s of (Inl e, s') \<Rightarrow> (Inl e, s') | (Inr x, s') \<Rightarrow> k x s')"

text \<open>\<^verbatim>\<open>try: m  except ...: h e\<close> for a handler that takes every exception of the model.\<close>

definition try_except :: "'a io \<Rightarrow> (exn \<Rightarrow> 'a io) \<Rightarrow> 'a io" where
  "try_except m h s = (case m s of (Inl e, s') \<Rightarrow> h e s' | (Inr x, s') \<Rightarrow> (Inr x, s'))"

definition print :: "string \<Rightarrow> unit io" where
  "print line s = (Inr (), s\<lparr>printed := printed s @ [line]\<rparr>)"

text \<open>\<^verbatim>\<open>datetime.now()\<close>\<close>

definition datetime_now :: "env \<Rightarrow> datetime io" where
  "datetime_now e s = (Inr (clock e (reads s)), s\<lparr>reads := Suc (reads s)\<rparr>)"

section \<open>File-system operations\<close>

text \<open>
  A path is resolved against the working directory into its components; empty and
  \<^verbatim>\<open>.\<close> components are skipped. The tree of the model ends at the working
  directory: an absolute path, or one through \<^verbatim>\<open>..\<close>, leads outside it, and
  the model takes everything outside to be inaccessible (\<open>PermissionError\<close>, one of
  the answers the operating system can give there).
\<close>

definition resolve :: "string \<Rightarrow> exn + string list" where
  "resolve p =
     (if p = [] then Inl FileNotFoundError
      else if take 1 p = ''/'' then Inl PermissionError
      else (let cs = filter (\<lambda>c. c \<noteq> [] \<and> c \<noteq> ''.'') (split_on CHR ''/'' p)
            in if ''..'' \<in> set cs then Inl PermissionError else Inr cs))"

fun lookup :: "node \<Rightarrow> string list \<Rightarrow> node option" where
  "lookup n [] = Some n"
| "lookup (File t) (c # cs) = None"
| "lookup (Dir es) (c # cs) = (case map_of es c of None \<Rightarrow> None | Some n \<Rightarrow> lookup n cs)"

text \<open>\<open>store p v t\<close>: the tree \<open>t\<close> with \<open>v\<close> at \<open>p\<close>, where the parent of \<open>p\<close> is a directory.\<close>

fun store :: "string list \<Rightarrow> node \<Rightarrow> node \<Rightarrow> node" where
  "store [] v t = v"
| "store (c # cs) v (File t) = File t"
| "store (c # cs) v (Dir es) =
     (if cs = [] then Dir (AList.update c v es)
      else (case map_of es c of None \<Rightarrow> Dir es
            | Some n \<Rightarrow> Dir (AList.update c (store cs v n) es)))"

text \<open>\<open>remove p t\<close>: the tree \<open>t\<close> without the entry at \<open>p\<close> and everything below it.\<close>

fun remove :: "string list \<Rightarrow> node \<Rightarrow> node" where
  "remove [] t = t"
| "remove (c # cs) (File t) = File t"
| "remove (c # cs) (Dir es) =
     (if cs = [] then Dir (AList.delete c es)
      else (case map_of es c of None \<Rightarrow> Dir es
            | Some n \<Rightarrow> Dir (AList.update c (remove cs n) es)))"

text \<open>\<^verbatim>\<open>os.path.exists\<close> and \<^verbatim>\<open>os.path.isdir\<close> answer False on every error.\<close>

definition os_path_exists :: "string \<Rightarrow> state \<Rightarrow> bool" where
  "os_path_exists p s =
     (case resolve p of Inl x \<Rightarrow> False | Inr cs \<Rightarrow> lookup (root s) cs \<noteq> None)"

definition os_path_isdir :: "string \<Rightarrow> state \<Rightarrow> bool" where
  "os_path_isdir p s =
     (case resolve p of Inl x \<Rightarrow> False
      | Inr cs \<Rightarrow> (case lookup (root s) cs of Some (Dir es) \<Rightarrow> True | _ \<Rightarrow> False))"

text \<open>
  \<^verbatim>\<open>shutil.rmtree(p)\<close>. On the working directory itself it empties the directory
  and then fails to remove it.
\<close>

definition shutil_rmtree :: "string \<Rightarrow> unit io" where
  "shutil_rmtree p s =
     (case resolve p of Inl x \<Rightarrow> (Inl x, s)
      | Inr cs \<Rightarrow>
         (case lookup (root s) cs of
            None \<Rightarrow> (Inl FileNotFoundError, s)
          | Some (File t) \<Rightarrow> (Inl NotADirectoryError, s)
          | Some (Dir es) \<Rightarrow>
              (if cs = [] then (Inl OSError, s\<lparr>root := Dir []\<rparr>)
               else (Inr (), s\<lparr>root := remove cs (root s)\<rparr>))))"

text \<open>\<^verbatim>\<open>os.mkdir(p)\<close>\<close>

definition os_mkdir :: "string \<Rightarrow> unit io" where
  "os_mkdir p s =
     (case resolve p of Inl x \<Rightarrow> (Inl x, s)
      | Inr cs \<Rightarrow>
         (if cs = [] then (Inl FileExistsError, s)
          else (case lookup (root s) (butlast cs) of
                  None \<Rightarrow> (Inl FileNotFoundError, s)
                | Some (File t) \<Rightarrow> (Inl NotADirectoryError, s)
                | Some (Dir es) \<Rightarrow>
                    (if map_of es (last cs) \<noteq> None then (Inl FileExistsError, s)
                     else (Inr (), s\<lparr>root := store cs (Dir []) (root s)\<rparr>)))))"

text \<open>\<^verbatim>\<open>os.listdir(p)\<close>: every entry, whatever its kind.\<close>

definition os_listdir :: "string \<Rightarrow> string list io" where
  "os_listdir p s =
     (case resolve p of Inl x \<Rightarrow> (Inl x, s)
      | Inr cs \<Rightarrow>
         (case lookup (root s) cs of
            None \<Rightarrow> (Inl FileNotFoundError, s)
          | Some (File t) \<Rightarrow> (Inl NotADirectoryError, s)
          | Some (Dir es) \<Rightarrow> (Inr (map fst es), s)))"

text \<open>
  \<^verbatim>\<open>open(p, 'w')\<close> creates the file or truncates it; the handle is the resolved path.
  \<^verbatim>\<open>f.write(text)\<close> appends to the file behind the handle. The content of a file is
  the text written to it.
\<close>

definition open_w :: "string \<Rightarrow> string list io" where
  "open_w p s =
     (case resolve p of Inl x \<Rightarrow> (Inl x, s)
      | Inr cs \<Rightarrow>
         (if cs = [] then (Inl IsADirectoryError, s)
          else (case lookup (root s) (butlast cs) of
                  None \<Rightarrow> (Inl FileNotFoundError, s)
                | Some (File t) \<Rightarrow> (Inl NotADirectoryError, s)
                | Some (Dir es) \<Rightarrow>
                    (case map_of es (last cs) of
                       Some (Dir es') \<Rightarrow> (Inl IsADirectoryError, s)
                     | _ \<Rightarrow> (Inr cs, s\<lparr>root := store cs (File []) (root s)\<rparr>)))))"

definition file_write :: "string list \<Rightarrow> string \<Rightarrow> unit io" where
  "file_write f text s =
     (case lookup (root s) f of
        Some (File t) \<Rightarrow> (Inr (), s\<lparr>root := store f (File (t @ text)) (root s)\<rparr>)
      | _ \<Rightarrow> (Inl OSError, s))"

text \<open>\<^verbatim>\<open>open(p, 'rb').read()\<close>\<close>

definition read_file :: "string \<Rightarrow> string io" where
  "read_file p s =
     (case resolve p of Inl x \<Rightarrow> (Inl x, s)
      | Inr cs \<Rightarrow>
         (case lookup (root s) cs of
            None \<Rightarrow> (Inl FileNotFoundError, s)
          | Some (Dir es) \<Rightarrow> (Inl IsADirectoryError, s)
          | Some (File t) \<Rightarrow> (Inr t, s)))"

text \<open>
  \<^verbatim>\<open>shutil.copy2(src, dst)\<close>: a destination that is a directory receives the file
  under the source's base name; \<^verbatim>\<open>copyfile\<close> refuses to copy a file onto itself,
  opens the source, then the destination, and copies the content. The metadata that
  \<^verbatim>\<open>copystat\<close> copies is outside the model.
\<close>

definition samefile :: "string \<Rightarrow> string \<Rightarrow> state \<Rightarrow> bool" where
  "samefile src dst s =
     (case resolve src of Inl x \<Rightarrow> False
      | Inr a \<Rightarrow> (case resolve dst of Inl x \<Rightarrow> False
                 | Inr b \<Rightarrow> a = b \<and> lookup (root s) a \<noteq> None))"

definition copyfile :: "string \<Rightarrow> string \<Rightarrow> unit io" where
  "copyfile src dst s =
     (if samefile src dst s then (Inl SameFileError, s)
      else and_then (read_file src) (\<lambda>content.
           and_then (open_w dst) (\<lambda>f. file_write f content)) s)"

definition shutil_copy2 :: "string \<Rightarrow> string \<Rightarrow> string io" where
  "shutil_copy2 src dst s =
     (let dst' = (if os_path_isdir dst s then os_path_join dst (os_path_basename src) else dst)
      in and_then (copyfile src dst') (\<lambda>_. ret dst') s)"

section \<open>Running external commands\<close>

text \<open>
  \<^verbatim>\<open>subprocess.run(argv, check=True, stdout=PIPE, stderr=PIPE)\<close>: a return code
  other than 0 raises \<open>CalledProcessError\<close>.
\<close>

definition subprocess_run_check :: "env \<Rightarrow> string list \<Rightarrow> bytes completed io" where
  "subprocess_run_check e argv =
     (case subprocess e False argv of
        Not_started x \<Rightarrow> raise x
      | Exited rc out err \<Rightarrow>
          (if rc \<noteq> 0 then raise CalledProcessError
           else ret \<lparr>returncode = rc, stdout = out, stderr = err\<rparr>))"

text \<open>\<^verbatim>\<open>b.decode()\<close>\<close>

definition decode :: "bytes \<Rightarrow> string io" where
  "decode b = (case b of Encoded t \<Rightarrow> ret t | Undecodable \<Rightarrow> raise UnicodeDecodeError)"

text \<open>
  \<^verbatim>\<open>subprocess.run(argv, capture_output=True, text=True, shell=...)\<close>: the output is
  decoded while it is read, and the return code is not checked.
\<close>

definition subprocess_run_text :: "env \<Rightarrow> bool \<Rightarrow> string list \<Rightarrow> string completed io" where
  "subprocess_run_text e shell argv =
     (case subprocess e shell argv of
        Not_started x \<Rightarrow> raise x
      | Exited rc out err \<Rightarrow>
          and_then (decode out) (\<lambda>out_text.
          and_then (decode err) (\<lambda>err_text.
          ret \<lparr>returncode = rc, stdout = out_text, stderr = err_text\<rparr>)))"

section \<open>The program\<close>

subsection \<open>\<^verbatim>\<open>save_git_commit_to_file\<close>\<close>

text \<open>
  Lines 53 to 73: the project name, from the remote URL or, when anything there raises,
  from the working directory.
\<close>

definition project_name_of_url :: "string \<Rightarrow> string" where
  "project_name_of_url remote_url =
     os_path_basename
       (if endswith remote_url ''.git'' then take (length remote_url - 4) remote_url
        else remote_url)"

definition get_project_name :: "env \<Rightarrow> string io" where
  "get_project_name e =
     try_except
       (and_then (subprocess_run_check e [''git'', ''config'', ''--get'', ''remote.origin.url''])
          (\<lambda>remote_result.
        and_then (decode (stdout remote_result)) (\<lambda>decoded.
        ret (project_name_of_url (strip decoded)))))
       (\<lambda>x. ret (os_path_basename (getcwd e)))"

text \<open>Lines 79 to 84: the six lines written to the descriptor file, in order.\<close>

definition descriptor_lines :: "string \<Rightarrow> string \<Rightarrow> string \<Rightarrow> string list" where
  "descriptor_lines project_name branch_name commit_hash =
     [''Project Name: '' @ project_name @ ''\<newline>'',
      ''Branch Name: '' @ branch_name @ ''\<newline>'',
      ''Commit Hash: '' @ commit_hash @ ''\<newline>'',
      ''View single commit: https://github.com/<user>/'' @ project_name @ ''/commit/'' @
        commit_hash @ ''\<newline>'',
      ''View log: https://github.com/<user>/'' @ project_name @ ''/commits/'' @
        commit_hash @ ''\<newline>'',
      ''/!'' @ [CHR 0x5C] @
        '' the files in the directory may have been modified since the last commit!!\<newline>'']"

fun write_all :: "string list \<Rightarrow> string list \<Rightarrow> unit io" where
  "write_all f [] = ret ()"
| "write_all f (line # lines) = and_then (file_write f line) (\<lambda>u. write_all f lines)"

text \<open>Lines 30 to 87: the body of the \<^verbatim>\<open>try\<close>.\<close>

definition save_git_commit_to_file_try :: "env \<Rightarrow> string \<Rightarrow> bool io" where
  "save_git_commit_to_file_try e d =
     and_then (subprocess_run_check e [''git'', ''rev-parse'', ''--is-inside-work-tree''])
       (\<lambda>inside.
     and_then (subprocess_run_check e [''git'', ''rev-parse'', ''HEAD'']) (\<lambda>result.
     and_then (decode (stdout result)) (\<lambda>decoded.
     let commit_hash = strip decoded in
     and_then (subprocess_run_check e [''git'', ''rev-parse'', ''--abbrev-ref'', ''HEAD''])
       (\<lambda>branch_result.
     and_then (decode (stdout branch_result)) (\<lambda>decoded.
     let branch_name = strip decoded in
     and_then (get_project_name e) (\<lambda>project_name.
     and_then (datetime_now e) (\<lambda>now.
     let timestamp = strftime now in
     and_then (open_w (os_path_join d (''git_commit_'' @ timestamp @ ''.txt''))) (\<lambda>f.
     and_then (write_all f (descriptor_lines project_name branch_name commit_hash)) (\<lambda>u.
     and_then (print (''Git information saved to '' @
                      os_path_join d (''git_commit_'' @ timestamp @ ''.txt''))) (\<lambda>u.
     ret True))))))))))"

text \<open>
  Lines 29 to 94: the two handlers take \<open>CalledProcessError\<close> and every other
  \<^verbatim>\<open>Exception\<close>.
\<close>

definition save_git_commit_to_file :: "env \<Rightarrow> string \<Rightarrow> bool io" where
  "save_git_commit_to_file e d =
     try_except (save_git_commit_to_file_try e d)
       (\<lambda>x. if x = CalledProcessError
            then and_then (print ''Error: Not a git repository or git is not installed.'')
                   (\<lambda>u. ret False)
            else and_then (print (''Error: '' @ str_exn e x)) (\<lambda>u. ret False))"

subsection \<open>\<^verbatim>\<open>export_conda_environment\<close>\<close>

text \<open>
  Lines 125 to 131: the first line with an asterisk gives the name, its first word or,
  when that is the asterisk, its second.
\<close>

definition find_current_env :: "string list \<Rightarrow> string option io" where
  "find_current_env env_info =
     (case find (\<lambda>line. CHR ''*'' \<in> set line) env_info of
        None \<Rightarrow> ret None
      | Some line \<Rightarrow>
          (case split_ws line of
             [] \<Rightarrow> raise IndexError
           | w # ws \<Rightarrow>
               (if w = ''*''
                then (case ws of [] \<Rightarrow> raise IndexError | w' # ws' \<Rightarrow> ret (Some w'))
                else ret (Some w))))"

text \<open>
  The result is the \<^verbatim>\<open>str\<close> the docstring promises, or \<^verbatim>\<open>None\<close>.
\<close>

definition export_conda_environment :: "env \<Rightarrow> string \<Rightarrow> bool \<Rightarrow> string option io" where
  "export_conda_environment e d include_builds =
     (let windows = (platform_system e = ''Windows'');
          conda_cmd = (if windows then (if conda_bat_exists e then ''conda.bat'' else ''conda'')
                       else ''conda'')
      in
      and_then (subprocess_run_text e windows [conda_cmd, ''info'', ''--envs'']) (\<lambda>result.
      if returncode result \<noteq> 0
      then and_then (print (''Error running conda command: '' @ stderr result)) (\<lambda>u. ret None)
      else
      let env_info = split_on CHR 0x0A (strip (stdout result)) in
      and_then (find_current_env env_info) (\<lambda>found.
      case found of
        None \<Rightarrow> raise (RuntimeError ''Could not determine current conda environment'')
      | Some current_env \<Rightarrow>
      if current_env = []
      then raise (RuntimeError ''Could not determine current conda environment'')
      else
      let command = [''conda'', ''env'', ''export'', ''-n'', current_env] @
                    (if \<not> include_builds then [''--no-builds''] else []) in
      and_then (datetime_now e) (\<lambda>now.
      let timestamp = strftime now in
      and_then (print (''Running command: '' @ str_join '' '' command)) (\<lambda>u.
      and_then (subprocess_run_text e windows command) (\<lambda>result.
      if returncode result \<noteq> 0
      then and_then (print (''Error exporting environment: '' @ stderr result)) (\<lambda>u. ret None)
      else
      and_then (open_w (os_path_join d (''conda_env_'' @ timestamp @ ''.yml''))) (\<lambda>f.
      and_then (file_write f (stdout result)) (\<lambda>u.
      and_then (print (''Environment exported to '' @
                       os_path_join d (''conda_env_'' @ current_env @ ''_'' @ timestamp @ ''.yml'')))
        (\<lambda>u.
      ret None)))))))))"

subsection \<open>\<^verbatim>\<open>save_files_rootdir\<close>\<close>

text \<open>Lines 170 and 171: the loop stops at the first copy that raises.\<close>

fun copy_each :: "string \<Rightarrow> string \<Rightarrow> string list \<Rightarrow> unit io" where
  "copy_each d timestamp [] = ret ()"
| "copy_each d timestamp (f # files) =
     and_then (shutil_copy2 f (os_path_join d (f @ ''_'' @ timestamp @ ''.txt'')))
       (\<lambda>copied. copy_each d timestamp files)"

definition save_files_rootdir :: "env \<Rightarrow> string \<Rightarrow> string list \<Rightarrow> unit io" where
  "save_files_rootdir e d extensions =
     and_then (datetime_now e) (\<lambda>now.
     let timestamp = strftime now in
     and_then (os_listdir ''.'') (\<lambda>names.
     let files = filter (\<lambda>s. list_ex (endswith s) extensions) names in
     copy_each d timestamp files))"

subsection \<open>\<^verbatim>\<open>make_workflow_reproducible\<close>\<close>

text \<open>Lines 180 to 182: the destination is removed when it exists, then created.\<close>

definition prepare_directory :: "string \<Rightarrow> unit io" where
  "prepare_directory r_d =
     and_then (\<lambda>s. if os_path_exists r_d s then shutil_rmtree r_d s else ret () s)
       (\<lambda>u. os_mkdir r_d)"

definition make_workflow_reproducible :: "env \<Rightarrow> string \<Rightarrow> unit io" where
  "make_workflow_reproducible e w_d =
     (let r_d = os_path_join w_d ''reproducibility'' in
      and_then (prepare_directory r_d) (\<lambda>u.
      and_then (save_files_rootdir e r_d [''.py'']) (\<lambda>u.
      and_then (save_git_commit_to_file e r_d) (\<lambda>saved.
      and_then (export_conda_environment e r_d False) (\<lambda>exported.
      ret ())))))"

section \<open>The project name in the words of the specification\<close>

text \<open>
  The specification derives the project name from the remote URL, when the query for it
  gives one, by taking the final path segment and stripping a trailing \<^verbatim>\<open>.git\<close>,
  and otherwise takes the base name of the working directory. The definitions of this
  section follow these words, not the program. The path of a remote URL begins after the
  colon that ends its scheme, as in \<^verbatim>\<open>https://host/user/project.git\<close>, or its
  host, as in \<^verbatim>\<open>user@host:user/project.git\<close>: the first colon, when it comes before
  every slash. A URL without such a colon is a path of the file system. The final path
  segment is what follows the last slash of the path, or the whole path when it has no
  slash.
\<close>

definition remote_path :: "string \<Rightarrow> string" where
  "remote_path u =
     (if CHR '':'' \<in> set (takeWhile (\<lambda>c. c \<noteq> CHR ''/'') u)
      then tl (dropWhile (\<lambda>c. c \<noteq> CHR '':'') u)
      else u)"

definition final_segment :: "string \<Rightarrow> string" where
  "final_segment u = last (split_on CHR ''/'' (remote_path u))"

definition without_git_suffix :: "string \<Rightarrow> string" where
  "without_git_suffix t = (if endswith t ''.git'' then take (length t - 4) t else t)"

definition remote_url :: "env \<Rightarrow> string option" where
  "remote_url e =
     (case subprocess e False [''git'', ''config'', ''--get'', ''remote.origin.url''] of
        Exited rc (Encoded out) err \<Rightarrow> if rc = 0 then Some (strip out) else None
      | _ \<Rightarrow> None)"

definition spec_project_name :: "env \<Rightarrow> string" where
  "spec_project_name e =
     (case remote_url e of
        None \<Rightarrow> os_path_basename (getcwd e)
      | Some u \<Rightarrow> without_git_suffix (final_segment u))"

section \<open>Vocabulary of the theorems\<close>

text \<open>
  \<^verbatim>\<open>get_project_name\<close> neither reads nor changes the state.
  \<open>recorded_project_name e\<close> is the name it returns in the world \<open>e\<close>: the one of
  lines 67 to 70 when the query for the remote URL exits with 0 and its output decodes,
  the one of line 73 in every other case.
\<close>

definition recorded_project_name :: "env \<Rightarrow> string" where
  "recorded_project_name e =
     (case subprocess e False [''git'', ''config'', ''--get'', ''remote.origin.url''] of
        Exited rc (Encoded out) err \<Rightarrow>
          if rc = 0 then project_name_of_url (strip out) else os_path_basename (getcwd e)
      | _ \<Rightarrow> os_path_basename (getcwd e))"

text \<open>
  A plain name is what \<^verbatim>\<open>os.listdir\<close> reports for an entry: not empty, not
  \<^verbatim>\<open>.\<close> or \<^verbatim>\<open>..\<close>, without a separator. \<open>copies_into ts es files xs\<close> is
  the directory listing \<open>xs\<close> after each of \<open>files\<close>, looked up in \<open>es\<close>, has been
  stored under its name followed by \<^verbatim>\<open>_ts.txt\<close>.
\<close>

definition plain_name :: "string \<Rightarrow> bool" where
  "plain_name n = (n \<noteq> [] \<and> n \<noteq> ''.'' \<and> n \<noteq> ''..'' \<and> CHR ''/'' \<notin> set n)"

fun copies_into ::
  "string \<Rightarrow> (string \<times> node) list \<Rightarrow> string list \<Rightarrow> (string \<times> node) list \<Rightarrow> (string \<times> node) list"
where
  "copies_into ts es [] xs = xs"
| "copies_into ts es (f # fs) xs =
     copies_into ts es fs
       (case map_of es f of
          Some n \<Rightarrow> AList.update (f @ ''_'' @ ts @ ''.txt'') n xs
        | None \<Rightarrow> xs)"


text \<open>
  \<open>py_files es\<close> are the names of the listing \<open>es\<close> that the orchestrator's filter
  selects. \<open>with_destination Q ds xs t\<close> is the tree \<open>t\<close> in which the directory at
  \<open>Q\<close>, of entries \<open>ds\<close>, has its entry \<^verbatim>\<open>reproducibility\<close> replaced by a
  directory of entries \<open>xs\<close>.
\<close>

definition py_files :: "(string \<times> node) list \<Rightarrow> string list" where
  "py_files es = filter (\<lambda>n. endswith n ''.py'') (map fst es)"

definition with_destination ::
  "string list \<Rightarrow> (string \<times> node) list \<Rightarrow> (string \<times> node) list \<Rightarrow> node \<Rightarrow> node" where
  "with_destination Q ds xs t =
     store Q (Dir (AList.update ''reproducibility'' (Dir xs)
                     (AList.delete ''reproducibility'' ds))) t"


text \<open>The names of the entries of the directory at a path, in listing order.\<close>

definition entry_names :: "node \<Rightarrow> string list \<Rightarrow> string list" where
  "entry_names t p = (case lookup t p of Some (Dir xs) \<Rightarrow> map fst xs | _ \<Rightarrow> [])"

section \<open>Example worlds\<close>

text \<open>
  Concrete worlds on which the theorems below are instantiated. The clock passes from
  14:05:59 to 14:06:00 between its first and its second reading.
\<close>

definition ticking_clock :: "nat \<Rightarrow> datetime" where
  "ticking_clock n =
     \<lparr>year = 2024, month = 3, day = 9, hour = 14,
      minute = (if n = 0 then 5 else 6), second = (if n = 0 then 59 else 0)\<rparr>"

definition steady_clock :: "nat \<Rightarrow> datetime" where
  "steady_clock n = \<lparr>year = 2024, month = 3, day = 9, hour = 14, minute = 5, second = 59\<rparr>"

definition example_tools :: "bool \<Rightarrow> string list \<Rightarrow> proc" where
  "example_tools shell argv =
     (if argv = [''git'', ''rev-parse'', ''--is-inside-work-tree'']
        then Exited 0 (Encoded ''true\<newline>'') (Encoded [])
      else if argv = [''git'', ''rev-parse'', ''HEAD'']
        then Exited 0 (Encoded ''abc123\<newline>'') (Encoded [])
      else if argv = [''git'', ''rev-parse'', ''--abbrev-ref'', ''HEAD'']
        then Exited 0 (Encoded ''main\<newline>'') (Encoded [])
      else if argv = [''git'', ''config'', ''--get'', ''remote.origin.url'']
        then Exited 0 (Encoded ''https://github.com/someone/demo.git\<newline>'') (Encoded [])
      else if argv = [''conda'', ''info'', ''--envs'']
        then Exited 0 (Encoded (''# conda environments:\<newline>#\<newline>'' @
                                ''base     /opt/conda\<newline>'' @
                                ''sci   *  /opt/conda/envs/sci\<newline>\<newline>'')) (Encoded [])
      else if argv = [''conda'', ''env'', ''export'', ''-n'', ''sci'', ''--no-builds'']
        then Exited 0 (Encoded ''name: sci\<newline>'') (Encoded [])
      else Not_started FileNotFoundError)"

definition example_env :: env where
  "example_env =
     \<lparr>subprocess = example_tools, clock = ticking_clock, platform_system = ''Linux'',
      conda_bat_exists = False, getcwd = ''/home/someone/work'',
      str_exn = (\<lambda>x. ''no such file'')\<rparr>"

text \<open>The same world without the version-control tool.\<close>

definition no_git_env :: env where
  "no_git_env =
     example_env\<lparr>subprocess := (\<lambda>shell argv.
        if take 1 argv = [''git''] then Not_started FileNotFoundError
        else example_tools shell argv)\<rparr>"

text \<open>
  A working directory with two scripts, a text file and the destination of an earlier
  run.
\<close>

definition example_state :: state where
  "example_state =
     \<lparr>root = Dir [(''a.py'', File ''import b''), (''b.py'', File ''pass''),
                  (''notes.txt'', File ''to do''),
                  (''reproducibility'', Dir [(''a.py_20240101_000000.txt'', File ''old'')])],
      reads = 0, printed = []\<rparr>"

text \<open>The example world without a remote origin.\<close>

definition no_remote_env :: env where
  "no_remote_env =
     example_env\<lparr>subprocess := (\<lambda>shell argv.
        if argv = [''git'', ''config'', ''--get'', ''remote.origin.url'']
        then Exited 1 (Encoded []) (Encoded [])
        else example_tools shell argv)\<rparr>"


text \<open>
  The example world with a remote of the form \<^verbatim>\<open>user@host:path\<close> whose path is a
  single segment.
\<close>

definition scp_remote_env :: env where
  "scp_remote_env =
     example_env\<lparr>subprocess := (\<lambda>shell argv.
        if argv = [''git'', ''config'', ''--get'', ''remote.origin.url'']
        then Exited 0 (Encoded ''git@server:project.git\<newline>'') (Encoded [])
        else example_tools shell argv)\<rparr>"

text \<open>
  The example world inside the directory \<^verbatim>\<open>.git\<close> of the repository: the check for
  a working tree exits with 0 and prints \<^verbatim>\<open>false\<close>, the other queries answer as
  in the working tree.
\<close>

definition git_dir_env :: env where
  "git_dir_env =
     example_env\<lparr>subprocess := (\<lambda>shell argv.
        if argv = [''git'', ''rev-parse'', ''--is-inside-work-tree'']
        then Exited 0 (Encoded ''false\<newline>'') (Encoded [])
        else example_tools shell argv),
      getcwd := ''/home/someone/work/.git''\<rparr>"

definition git_dir_state :: state where
  "git_dir_state =
     \<lparr>root = Dir [(''HEAD'', File ''ref: refs/heads/main\<newline>''), (''config'', File []),
                  (''reproducibility'', Dir [])],
      reads = 0, printed = []\<rparr>"

text \<open>The example world in which the listing of environments marks no row.\<close>

definition no_active_env :: env where
  "no_active_env =
     example_env\<lparr>subprocess := (\<lambda>shell argv.
        if argv = [''conda'', ''info'', ''--envs'']
        then Exited 0 (Encoded (''# conda environments:\<newline>#\<newline>'' @
                                ''base     /opt/conda\<newline>'' @
                                ''sci      /opt/conda/envs/sci\<newline>\<newline>'')) (Encoded [])
        else example_tools shell argv)\<rparr>"

text \<open>
  The same listing under a legend that explains the asterisk, as newer versions of the
  package manager print it. No environment is named \<^verbatim>\<open>#\<close>, so the export of it
  fails.
\<close>

definition legend_env :: env where
  "legend_env =
     example_env\<lparr>subprocess := (\<lambda>shell argv.
        if argv = [''conda'', ''info'', ''--envs'']
        then Exited 0 (Encoded (''# conda environments:\<newline>#\<newline># * -> active\<newline>'' @
                                ''base     /opt/conda\<newline>'' @
                                ''sci      /opt/conda/envs/sci\<newline>\<newline>'')) (Encoded [])
        else if argv = [''conda'', ''env'', ''export'', ''-n'', ''#'', ''--no-builds'']
        then Exited 1 (Encoded []) (Encoded ''EnvironmentLocationNotFound'')
        else example_tools shell argv)\<rparr>"

text \<open>The working directory of the copy scenario, with an empty destination.\<close>

definition scenario_state :: state where
  "scenario_state =
     \<lparr>root = Dir [(''a.py'', File ''import b''), (''b.py'', File ''pass''),
                  (''notes.txt'', File ''to do''), (''out'', Dir [])],
      reads = 0, printed = []\<rparr>"


text \<open>The example world with a clock that stays within one second.\<close>

definition steady_env :: env where
  "steady_env = example_env\<lparr>clock := steady_clock\<rparr>"

text \<open>A working directory in which a directory is named like a script.\<close>

definition package_dir_state :: state where
  "package_dir_state =
     \<lparr>root = Dir [(''pkg.py'', Dir [(''mod.py'', File ''pass'')]), (''a.py'', File ''import b'')],
      reads = 0, printed = []\<rparr>"

section \<open>Facts about strings and paths\<close>

lemma digit_not_slash: "digit n \<noteq> CHR ''/''"
proof -
  have "digit n \<in> set ''0123456789''"
    unfolding digit_def by (rule nth_mem) simp
  then show ?thesis by auto
qed

lemma strftime_no_slash: "CHR ''/'' \<notin> set (strftime dt)"
  by (simp add: strftime_def pad2_def pad4_def digit_not_slash[symmetric])

lemma split_on_nonempty: "split_on c t \<noteq> []"
  by (induction t) (auto split: list.splits)

lemma split_on_no_sep: "c \<notin> set t \<Longrightarrow> split_on c t = [t]"
  by (induction t) auto

lemma split_on_append: "split_on c (a @ c # b) = split_on c a @ split_on c b"
  by (induction a) (auto simp: split_on_nonempty split: list.splits)

lemma split_on_snoc_sep: "split_on c (a @ [c]) = split_on c a @ [[]]"
  using split_on_append [of c a "[]"] by simp

lemma endswith_slash: "endswith a ''/'' \<Longrightarrow> \<exists>a'. a = a' @ ''/''"
  by (cases a rule: rev_cases) (auto simp: endswith_def)

text \<open>Joining a resolved directory with a plain name resolves to the entry of that name.\<close>

lemma resolve_join:
  assumes d: "resolve d = Inr P"
    and n: "CHR ''/'' \<notin> set n" "n \<noteq> []" "n \<noteq> ''.''" "n \<noteq> ''..''"
  shows "resolve (os_path_join d n) = Inr (P @ [n])"
proof -
  let ?keep = "\<lambda>c. c \<noteq> [] \<and> c \<noteq> ''.''"
  from d have d1: "d \<noteq> []" "take 1 d \<noteq> ''/''"
    and d2: "''..'' \<notin> set (filter ?keep (split_on CHR ''/'' d))"
    and d3: "P = filter ?keep (split_on CHR ''/'' d)"
    by (auto simp: resolve_def Let_def split: if_splits)
  from n have n1: "take 1 n \<noteq> ''/''" by (cases n) auto
  have sn: "split_on CHR ''/'' n = [n]" using n(1) by (rule split_on_no_sep)
  show ?thesis
  proof (cases "endswith d ''/''")
    case True
    then obtain d' where d': "d = d' @ ''/''" using endswith_slash by blast
    have j: "os_path_join d n = d' @ CHR ''/'' # n"
      using True n1 d' by (simp add: os_path_join_def)
    have c: "filter ?keep (split_on CHR ''/'' (d' @ CHR ''/'' # n)) = P @ [n]"
      using n d3 d' by (simp add: split_on_append split_on_snoc_sep sn)
    have t: "take 1 (d' @ CHR ''/'' # n) \<noteq> ''/''" using d1 d' by (cases d') auto
    show ?thesis unfolding j using c t d2 d3 n
      by (simp add: resolve_def Let_def)
  next
    case False
    have j: "os_path_join d n = d @ CHR ''/'' # n"
      using False n1 d1 by (simp add: os_path_join_def)
    have c: "filter ?keep (split_on CHR ''/'' (d @ CHR ''/'' # n)) = P @ [n]"
      using n d3 by (simp add: split_on_append sn)
    have t: "take 1 (d @ CHR ''/'' # n) \<noteq> ''/''" using d1 by (cases d) auto
    show ?thesis unfolding j using c t d2 d3 n
      by (simp add: resolve_def Let_def)
  qed
qed

section \<open>Facts about the tree\<close>

lemma lookup_append:
  "lookup t (p @ q) = (case lookup t p of None \<Rightarrow> None | Some n \<Rightarrow> lookup n q)"
proof (induction t p rule: lookup.induct)
  case (1 n) show ?case by simp
next
  case (2 t c cs) show ?case by simp
next
  case (3 es c cs) then show ?case by (simp split: option.splits)
qed

lemma lookup_store_same: "lookup t p = Some n \<Longrightarrow> lookup (store p v t) p = Some v"
proof (induction t p arbitrary: n rule: lookup.induct)
  case (1 n) show ?case by simp
next
  case (2 t c cs) then show ?case by simp
next
  case (3 es c cs) then show ?case
    by (auto simp: AList.update_conv' split: option.splits)
qed

lemma store_append:
  "lookup t p = Some n \<Longrightarrow> store (p @ q) v t = store p (store q v n) t"
proof (induction t p arbitrary: n rule: lookup.induct)
  case (1 n) then show ?case by simp
next
  case (2 t c cs) then show ?case by simp
next
  case (3 es c cs) then show ?case
    by (auto split: option.splits)
qed

lemma store_store: "store p v (store p v' t) = store p v t"
proof (induction p v' t rule: store.induct)
  case (1 v t) show ?case by simp
next
  case (2 c cs v t) show ?case by simp
next
  case (3 c cs v' es) then show ?case
    by (auto simp: AList.update_conv' split: option.splits)
qed

lemma remove_append:
  "lookup t p = Some (Dir xs) \<Longrightarrow> remove (p @ [c]) t = store p (Dir (AList.delete c xs)) t"
proof (induction t p rule: lookup.induct)
  case (1 n) then show ?case by simp
next
  case (2 t c cs) then show ?case by simp
next
  case (3 es c cs) then show ?case
    by (auto split: option.splits)
qed

section \<open>Facts about steps\<close>

lemma and_then_Inr: "m s = (Inr x, s') \<Longrightarrow> and_then m k s = k x s'"
  by (simp add: and_then_def)

lemma and_then_Inl: "m s = (Inl x, s') \<Longrightarrow> and_then m k s = (Inl x, s')"
  by (simp add: and_then_def)

lemma and_then_InrE:
  assumes "and_then m k s = (Inr y, s')"
  obtains x s1 where "m s = (Inr x, s1)" and "k x s1 = (Inr y, s')"
  using assms by (auto simp: and_then_def split: prod.splits sum.splits)

section \<open>The revision recorder returns a boolean\<close>

lemma try_returns_True:
  "save_git_commit_to_file_try e d s = (Inr b, s') \<Longrightarrow> b"
  unfolding save_git_commit_to_file_try_def Let_def
  by (elim and_then_InrE) (simp add: ret_def)

text \<open>
  Claim C3. For every environment (every outcome of every external command), every
  directory argument and every state, \<^verbatim>\<open>save_git_commit_to_file\<close> returns a boolean
  and raises nothing: either the body of its \<^verbatim>\<open>try\<close> completes and the result is
  True, or a step of the body raises an exception, whatever it is, and the result is False,
  the state being the one the body left with one line printed.
\<close>

theorem save_git_commit_to_file_returns_bool:
  "(\<exists>s'. save_git_commit_to_file_try e d s = (Inr True, s') \<and>
         save_git_commit_to_file e d s = (Inr True, s')) \<or>
   (\<exists>x s1 line. save_git_commit_to_file_try e d s = (Inl x, s1) \<and>
         save_git_commit_to_file e d s = (Inr False, s1\<lparr>printed := printed s1 @ [line]\<rparr>))"
proof (cases "save_git_commit_to_file_try e d s")
  case (Pair r s1)
  show ?thesis
  proof (cases r)
    case (Inl x)
    with Pair show ?thesis
      by (auto simp: save_git_commit_to_file_def try_except_def and_then_def print_def ret_def)
  next
    case (Inr b)
    with Pair try_returns_True have b by blast
    with Pair Inr show ?thesis
      by (simp add: save_git_commit_to_file_def try_except_def)
  qed
qed

section \<open>Writing files\<close>

lemma store_child:
  "lookup t P = Some (Dir xs) \<Longrightarrow> store (P @ [n]) v t = store P (Dir (AList.update n v xs)) t"
  by (simp add: store_append)

lemma lookup_store_child:
  assumes "lookup t P = Some (Dir xs)"
  shows "lookup (store (P @ [n]) v t) (P @ [n]) = Some v"
  using assms
  by (simp add: store_child lookup_append lookup_store_same AList.update_conv')

lemma lookup_child: "lookup t P = Some (Dir xs) \<Longrightarrow> lookup t (P @ [n]) = map_of xs n"
  by (simp add: lookup_append split: option.splits)

lemma store_present: "lookup t p = Some v \<Longrightarrow> store p v t = t"
proof (induction t p rule: lookup.induct)
  case (1 n) then show ?case by simp
next
  case (2 t c cs) then show ?case by simp
next
  case (3 es c cs) then show ?case
    by (auto simp: AList.update_triv split: option.splits)
qed

lemma file_write_ok:
  "lookup (root s) f = Some (File t) \<Longrightarrow>
   file_write f text s = (Inr (), s\<lparr>root := store f (File (t @ text)) (root s)\<rparr>)"
  by (simp add: file_write_def)

lemma write_all_ok:
  "lookup (root s) f = Some (File t) \<Longrightarrow>
   write_all f lines s = (Inr (), s\<lparr>root := store f (File (t @ concat lines)) (root s)\<rparr>)"
proof (induction lines arbitrary: s t)
  case Nil
  then show ?case by (simp add: ret_def store_present)
next
  case (Cons l ls)
  let ?s1 = "s\<lparr>root := store f (File (t @ l)) (root s)\<rparr>"
  have w: "file_write f l s = (Inr (), ?s1)"
    using Cons.prems by (rule file_write_ok)
  have l1: "lookup (root ?s1) f = Some (File (t @ l))"
    using Cons.prems by (simp add: lookup_store_same)
  show ?case
    using Cons.IH [OF l1] w by (simp add: and_then_def store_store)
qed

lemma open_w_ok:
  assumes "resolve p = Inr (P @ [n])" and "lookup (root s) P = Some (Dir xs)"
    and "\<And>ys. map_of xs n \<noteq> Some (Dir ys)"
  shows "open_w p s = (Inr (P @ [n]), s\<lparr>root := store (P @ [n]) (File []) (root s)\<rparr>)"
proof (cases "map_of xs n")
  case None
  with assms show ?thesis by (simp add: open_w_def)
next
  case (Some v)
  with assms(3) obtain t where "v = File t" by (cases v) auto
  with Some assms show ?thesis by (simp add: open_w_def)
qed

lemma create_and_write:
  assumes p: "resolve p = Inr (P @ [n])" and P: "lookup (root s) P = Some (Dir xs)"
    and n: "\<And>ys. map_of xs n \<noteq> Some (Dir ys)"
  shows "and_then (open_w p) (\<lambda>f. and_then (write_all f lines) k) s =
         k () (s\<lparr>root := store P (Dir (AList.update n (File (concat lines)) xs)) (root s)\<rparr>)"
proof -
  let ?s1 = "s\<lparr>root := store (P @ [n]) (File []) (root s)\<rparr>"
  have o: "open_w p s = (Inr (P @ [n]), ?s1)" using p P n by (rule open_w_ok)
  have l1: "lookup (root ?s1) (P @ [n]) = Some (File [])"
    using P by (simp add: lookup_store_child)
  have "write_all (P @ [n]) lines ?s1 =
        (Inr (), ?s1\<lparr>root := store (P @ [n]) (File ([] @ concat lines)) (root ?s1)\<rparr>)"
    using l1 by (rule write_all_ok)
  moreover have "store (P @ [n]) (File (concat lines)) (store (P @ [n]) (File []) (root s)) =
        store P (Dir (AList.update n (File (concat lines)) xs)) (root s)"
    unfolding store_store using P by (rule store_child)
  ultimately have w: "write_all (P @ [n]) lines ?s1 =
        (Inr (), s\<lparr>root := store P (Dir (AList.update n (File (concat lines)) xs)) (root s)\<rparr>)"
    by simp
  show ?thesis using o w by (simp add: and_then_def)
qed

section \<open>The project name\<close>

lemma endswith_iff: "endswith s suf \<longleftrightarrow> (\<exists>a. s = a @ suf)"
proof
  assume "endswith s suf"
  then have "rev s = rev suf @ drop (length suf) (rev s)"
    unfolding endswith_def by (metis append_take_drop_id)
  then have "s = rev (drop (length suf) (rev s)) @ suf"
    by (metis rev_append rev_rev_ident)
  then show "\<exists>a. s = a @ suf" ..
next
  assume "\<exists>a. s = a @ suf"
  then show "endswith s suf" by (auto simp: endswith_def)
qed

lemma basename_last_split: "os_path_basename u = last (split_on CHR ''/'' u)"
proof (cases "CHR ''/'' \<in> set u")
  case False
  then have tw: "takeWhile (\<lambda>c. c \<noteq> CHR ''/'') (rev u) = rev u"
    by (auto simp: takeWhile_eq_all_conv)
  show ?thesis
    unfolding os_path_basename_def tw split_on_no_sep [OF False] by simp
next
  case True
  then obtain a b where u: "u = a @ CHR ''/'' # b" and b: "CHR ''/'' \<notin> set b"
    using split_list_last by fastforce
  have tw: "takeWhile (\<lambda>c. c \<noteq> CHR ''/'') (rev b @ CHR ''/'' # rev a) = rev b"
    using b by (auto simp: takeWhile_tail)
  have "os_path_basename u = b"
    unfolding os_path_basename_def u using tw by simp
  moreover have "last (split_on CHR ''/'' u) = b"
    unfolding u split_on_append split_on_no_sep [OF b] by simp
  ultimately show ?thesis by simp
qed

lemma basename_append_plain:
  assumes "CHR ''/'' \<notin> set t"
  shows "os_path_basename (a @ t) = os_path_basename a @ t"
proof -
  have "takeWhile (\<lambda>c. c \<noteq> CHR ''/'') (rev t @ rev a) =
        rev t @ takeWhile (\<lambda>c. c \<noteq> CHR ''/'') (rev a)"
    using assms by (intro takeWhile_append2) auto
  then show ?thesis by (simp add: os_path_basename_def)
qed

lemma basename_suffix: "\<exists>b. u = b @ os_path_basename u"
proof -
  have "rev u = takeWhile (\<lambda>c. c \<noteq> CHR ''/'') (rev u) @ dropWhile (\<lambda>c. c \<noteq> CHR ''/'') (rev u)"
    by simp
  then have "u = rev (dropWhile (\<lambda>c. c \<noteq> CHR ''/'') (rev u)) @ os_path_basename u"
    unfolding os_path_basename_def by (metis rev_append rev_rev_ident)
  then show ?thesis ..
qed

lemma project_name_of_url_basename:
  "project_name_of_url u = without_git_suffix (os_path_basename u)"
proof (cases "endswith u ''.git''")
  case True
  then obtain a where a: "u = a @ ''.git''" using endswith_iff by blast
  have "os_path_basename u = os_path_basename a @ ''.git''"
    unfolding a by (rule basename_append_plain) simp
  moreover have "endswith (os_path_basename a @ ''.git'') ''.git''"
    by (simp add: endswith_iff)
  ultimately have "without_git_suffix (os_path_basename u) = os_path_basename a"
    by (simp add: without_git_suffix_def)
  moreover have "project_name_of_url u = os_path_basename a"
    using True a by (simp add: project_name_of_url_def)
  ultimately show ?thesis by simp
next
  case False
  obtain b where b: "u = b @ os_path_basename u" using basename_suffix by blast
  have "\<not> endswith (os_path_basename u) ''.git''"
  proof
    assume "endswith (os_path_basename u) ''.git''"
    then obtain a where "os_path_basename u = a @ ''.git''" using endswith_iff by blast
    with b have "u = (b @ a) @ ''.git''" by simp
    then have "endswith u ''.git''" using endswith_iff by blast
    with False show False by simp
  qed
  with False show ?thesis
    by (simp add: project_name_of_url_def without_git_suffix_def)
qed

lemma subprocess_run_check_ok:
  "subprocess e False argv = Exited 0 out err \<Longrightarrow>
   subprocess_run_check e argv s = (Inr \<lparr>returncode = 0, stdout = out, stderr = err\<rparr>, s)"
  by (simp add: subprocess_run_check_def ret_def)

lemma get_project_name_value: "get_project_name e s = (Inr (recorded_project_name e), s)"
proof (cases "subprocess e False [''git'', ''config'', ''--get'', ''remote.origin.url'']")
  case (Not_started x)
  then show ?thesis
    by (simp add: get_project_name_def recorded_project_name_def try_except_def
        and_then_def subprocess_run_check_def raise_def ret_def)
next
  case (Exited rc out err)
  show ?thesis
  proof (cases out)
    case Undecodable
    with Exited show ?thesis
      by (simp add: get_project_name_def recorded_project_name_def try_except_def
          and_then_def subprocess_run_check_def decode_def raise_def ret_def)
  next
    case (Encoded t)
    with Exited show ?thesis
      by (simp add: get_project_name_def recorded_project_name_def try_except_def
          and_then_def subprocess_run_check_def decode_def raise_def ret_def)
  qed
qed

text \<open>
  The program against the words of the specification. Without a remote URL both give the
  base name of the working directory. With one, the program strips the suffix and takes
  what follows the last slash of the whole URL, where the specification takes the final
  segment of its path: the two agree whenever the path has a slash, and on every URL that
  is a path of the file system.
\<close>

lemma recorded_without_remote:
  assumes "remote_url e = None"
  shows "recorded_project_name e = os_path_basename (getcwd e)"
    and "spec_project_name e = os_path_basename (getcwd e)"
  using assms
  by (auto simp: recorded_project_name_def spec_project_name_def remote_url_def
      split: proc.splits bytes.splits if_splits)

lemma recorded_with_remote:
  assumes "remote_url e = Some u"
  shows "recorded_project_name e = without_git_suffix (os_path_basename u)"
    and "spec_project_name e = without_git_suffix (final_segment u)"
  using assms
  by (auto simp: recorded_project_name_def spec_project_name_def remote_url_def
      project_name_of_url_basename split: proc.splits bytes.splits if_splits)

lemma basename_after_slash:
  assumes "CHR ''/'' \<in> set p"
  shows "os_path_basename (a @ p) = os_path_basename p"
proof -
  have "takeWhile (\<lambda>c. c \<noteq> CHR ''/'') (rev p @ rev a) = takeWhile (\<lambda>c. c \<noteq> CHR ''/'') (rev p)"
    using assms by (intro takeWhile_append1 [of "CHR ''/''"]) auto
  then show ?thesis by (simp add: os_path_basename_def)
qed

lemma final_segment_basename:
  assumes "CHR ''/'' \<in> set (remote_path u) \<or> remote_path u = u"
  shows "final_segment u = os_path_basename u"
proof (cases "remote_path u = u")
  case True
  then show ?thesis by (simp add: final_segment_def basename_last_split)
next
  case False
  with assms have p: "CHR ''/'' \<in> set (remote_path u)" by simp
  have "CHR '':'' \<in> set (takeWhile (\<lambda>c. c \<noteq> CHR ''/'') u)"
    using False by (simp add: remote_path_def split: if_splits)
  then have "CHR '':'' \<in> set u" by (rule set_takeWhileD [THEN conjunct1])
  then have ne: "dropWhile (\<lambda>c. c \<noteq> CHR '':'') u \<noteq> []"
    by (auto simp: dropWhile_eq_Nil_conv)
  have "u = takeWhile (\<lambda>c. c \<noteq> CHR '':'') u @ dropWhile (\<lambda>c. c \<noteq> CHR '':'') u"
    by simp
  with ne have "u = (takeWhile (\<lambda>c. c \<noteq> CHR '':'') u @
                        [hd (dropWhile (\<lambda>c. c \<noteq> CHR '':'') u)]) @
                       tl (dropWhile (\<lambda>c. c \<noteq> CHR '':'') u)"
    by simp
  moreover have "remote_path u = tl (dropWhile (\<lambda>c. c \<noteq> CHR '':'') u)"
    using False by (simp add: remote_path_def split: if_splits)
  ultimately obtain a where u: "u = a @ remote_path u" by metis
  have "os_path_basename u = os_path_basename (remote_path u)"
    using basename_after_slash [OF p, of a] u by simp
  then show ?thesis by (simp add: final_segment_def basename_last_split)
qed

section \<open>What the revision recorder writes\<close>

lemma and_then_decode: "and_then (decode (Encoded t)) k s = k t s"
  by (simp add: and_then_def decode_def ret_def)

lemma and_then_now:
  "and_then (datetime_now e) k s = k (clock e (reads s)) (s\<lparr>reads := Suc (reads s)\<rparr>)"
  by (simp add: and_then_def datetime_now_def)

lemma and_then_print:
  "and_then (print line) k s = k () (s\<lparr>printed := printed s @ [line]\<rparr>)"
  by (simp add: and_then_def print_def)

lemma recorder_writes:
  assumes d: "resolve d = Inr P" and P: "lookup (root s) P = Some (Dir xs)"
    and inside: "subprocess e False [''git'', ''rev-parse'', ''--is-inside-work-tree'']
                 = Exited 0 o1 e1"
    and head: "subprocess e False [''git'', ''rev-parse'', ''HEAD''] = Exited 0 (Encoded h) e2"
    and branch: "subprocess e False [''git'', ''rev-parse'', ''--abbrev-ref'', ''HEAD'']
                 = Exited 0 (Encoded b) e3"
    and free: "\<And>ys. map_of xs (''git_commit_'' @ strftime (clock e (reads s)) @ ''.txt'')
                 \<noteq> Some (Dir ys)"
  shows "save_git_commit_to_file e d s =
    (Inr True,
     s\<lparr>root := store P (Dir (AList.update
                 (''git_commit_'' @ strftime (clock e (reads s)) @ ''.txt'')
                 (File (concat (descriptor_lines (recorded_project_name e) (strip b) (strip h))))
                 xs)) (root s),
       reads := Suc (reads s),
       printed := printed s @
         [''Git information saved to '' @
          os_path_join d (''git_commit_'' @ strftime (clock e (reads s)) @ ''.txt'')]\<rparr>)"
proof -
  let ?name = "''git_commit_'' @ strftime (clock e (reads s)) @ ''.txt''"
  let ?s1 = "s\<lparr>reads := Suc (reads s)\<rparr>"
  have r: "resolve (os_path_join d ?name) = Inr (P @ [?name])"
    using d by (rule resolve_join) (simp_all add: strftime_no_slash)
  have P1: "lookup (root ?s1) P = Some (Dir xs)" using P by simp
  have cw: "and_then (open_w (os_path_join d ?name))
              (\<lambda>f. and_then (write_all f lines) k) ?s1 =
            k () (?s1\<lparr>root := store P (Dir (AList.update ?name (File (concat lines)) xs))
                                 (root ?s1)\<rparr>)" for lines k
    using r P1 free by (rule create_and_write)
  show ?thesis
    unfolding save_git_commit_to_file_def try_except_def save_git_commit_to_file_try_def Let_def
    apply (simp only: and_then_Inr [OF subprocess_run_check_ok [OF inside]]
        and_then_Inr [OF subprocess_run_check_ok [OF head]]
        and_then_Inr [OF subprocess_run_check_ok [OF branch]]
        and_then_Inr [OF get_project_name_value]
        and_then_decode and_then_now and_then_print cw ret_def completed.simps)
    apply simp
    done
qed

lemma strftime_ticking_0: "strftime (ticking_clock 0) = ''20240309_140559''"
  by (simp add: ticking_clock_def strftime_def pad2_def pad4_def digit_def)

text \<open>
  Claim C7 does not hold of the program. Lines 67 to 70 strip the suffix and then take
  \<^verbatim>\<open>os.path.basename\<close> of the whole URL, which looks for slashes only. For the
  remote \<^verbatim>\<open>git@server:project.git\<close>, whose path is the single segment
  \<^verbatim>\<open>project.git\<close>, the recorder returns True and the descriptor names the project
  \<^verbatim>\<open>git@server:project\<close>, in its first line and in both of its links, where the
  final path segment without the suffix is \<^verbatim>\<open>project\<close>.
\<close>

theorem remote_without_slash_project_name:
  "fst (save_git_commit_to_file scp_remote_env ''reproducibility'' example_state) = Inr True \<and>
   lookup (root (snd (save_git_commit_to_file scp_remote_env ''reproducibility'' example_state)))
       [''reproducibility'', ''git_commit_20240309_140559.txt''] =
     Some (File
       (''Project Name: git@server:project\<newline>'' @
        ''Branch Name: main\<newline>'' @
        ''Commit Hash: abc123\<newline>'' @
        ''View single commit: https://github.com/<user>/git@server:project/commit/abc123\<newline>'' @
        ''View log: https://github.com/<user>/git@server:project/commits/abc123\<newline>'' @
        ''/!'' @ [CHR 0x5C] @
        '' the files in the directory may have been modified since the last commit!!\<newline>'')) \<and>
   remote_url scp_remote_env = Some ''git@server:project.git'' \<and>
   final_segment ''git@server:project.git'' = ''project.git'' \<and>
   spec_project_name scp_remote_env = ''project''"
proof -
  have r: "resolve ''reproducibility'' = Inr [''reproducibility'']"
    by (simp add: resolve_def)
  have l: "lookup (root example_state) [''reproducibility''] =
           Some (Dir [(''a.py_20240101_000000.txt'', File ''old'')])"
    by (simp add: example_state_def)
  have q: "subprocess scp_remote_env False [''git'', ''rev-parse'', ''--is-inside-work-tree'']
             = Exited 0 (Encoded ''true\<newline>'') (Encoded [])"
      "subprocess scp_remote_env False [''git'', ''rev-parse'', ''HEAD'']
             = Exited 0 (Encoded ''abc123\<newline>'') (Encoded [])"
      "subprocess scp_remote_env False [''git'', ''rev-parse'', ''--abbrev-ref'', ''HEAD'']
             = Exited 0 (Encoded ''main\<newline>'') (Encoded [])"
    by (simp_all add: scp_remote_env_def example_env_def example_tools_def)
  have c: "clock scp_remote_env (reads example_state) = ticking_clock 0"
    by (simp add: scp_remote_env_def example_env_def example_state_def)
  have f: "\<And>ys. map_of [(''a.py_20240101_000000.txt'', File ''old'')]
              (''git_commit_'' @ strftime (clock scp_remote_env (reads example_state)) @ ''.txt'')
            \<noteq> Some (Dir ys)"
    by simp
  have s: "strip ''abc123\<newline>'' = ''abc123''" "strip ''main\<newline>'' = ''main''"
    by (simp_all add: strip_def isspace_def)
  have u: "remote_url scp_remote_env = Some ''git@server:project.git''"
    by (simp add: remote_url_def scp_remote_env_def example_env_def strip_def isspace_def)
  have n: "recorded_project_name scp_remote_env = ''git@server:project''"
    by (simp add: recorded_project_name_def scp_remote_env_def example_env_def strip_def
        isspace_def project_name_of_url_def os_path_basename_def endswith_def)
  have g: "final_segment ''git@server:project.git'' = ''project.git''"
    by (simp add: final_segment_def remote_path_def)
  have p: "spec_project_name scp_remote_env = ''project''"
    by (simp add: spec_project_name_def u g without_git_suffix_def endswith_def)
  have "save_git_commit_to_file scp_remote_env ''reproducibility'' example_state =
    (Inr True,
     example_state\<lparr>root := store [''reproducibility''] (Dir (AList.update
                 ''git_commit_20240309_140559.txt''
                 (File (concat (descriptor_lines ''git@server:project'' ''main'' ''abc123'')))
                 [(''a.py_20240101_000000.txt'', File ''old'')])) (root example_state),
       reads := Suc (reads example_state),
       printed := printed example_state @
         [''Git information saved to '' @
          os_path_join ''reproducibility'' ''git_commit_20240309_140559.txt'']\<rparr>)"
    using recorder_writes [OF r l q f] unfolding n s c strftime_ticking_0 by simp
  then have "fst (save_git_commit_to_file scp_remote_env ''reproducibility'' example_state)
               = Inr True"
    and "lookup (root (snd (save_git_commit_to_file scp_remote_env ''reproducibility''
                              example_state)))
           [''reproducibility'', ''git_commit_20240309_140559.txt''] =
         Some (File (concat (descriptor_lines ''git@server:project'' ''main'' ''abc123'')))"
    by (simp_all add: example_state_def)
  then show ?thesis using u g p by (simp add: descriptor_lines_def)
qed

text \<open>The fall-back of line 73, in the example world without a remote origin.\<close>

lemma no_remote_project_name:
  "recorded_project_name no_remote_env = ''work''"
  "spec_project_name no_remote_env = ''work''"
proof -
  have "remote_url no_remote_env = None"
    by (simp add: remote_url_def no_remote_env_def example_env_def)
  then show "recorded_project_name no_remote_env = ''work''"
    and "spec_project_name no_remote_env = ''work''"
    by (simp_all add: recorded_without_remote no_remote_env_def example_env_def
        os_path_basename_def)
qed

section \<open>The descriptor for fixed inputs\<close>

text \<open>
  Claim C6. When the query for the commit hash answers \<^verbatim>\<open>abc123\<close>, the query for
  the branch answers \<^verbatim>\<open>main\<close> and the project name is \<^verbatim>\<open>demo\<close>, and the
  destination is a directory of the tree in which the descriptor's name is not taken by a
  directory, the recorder returns True and the descriptor file holds exactly the six lines
  below: the project name, \<^verbatim>\<open>Branch Name: main\<close>, \<^verbatim>\<open>Commit Hash: abc123\<close>, the
  single-commit URL with \<^verbatim>\<open>demo/commit/abc123\<close>, the log URL with
  \<^verbatim>\<open>demo/commits/abc123\<close>, and the fixed warning.
\<close>

theorem descriptor_for_fixed_inputs:
  assumes "resolve d = Inr P" and "lookup (root s) P = Some (Dir xs)"
    and "subprocess e False [''git'', ''rev-parse'', ''--is-inside-work-tree''] = Exited 0 o1 e1"
    and "subprocess e False [''git'', ''rev-parse'', ''HEAD''] = Exited 0 (Encoded h) e2"
    and "subprocess e False [''git'', ''rev-parse'', ''--abbrev-ref'', ''HEAD'']
         = Exited 0 (Encoded b) e3"
    and "\<And>ys. map_of xs (''git_commit_'' @ strftime (clock e (reads s)) @ ''.txt'')
         \<noteq> Some (Dir ys)"
    and "strip h = ''abc123''" and "strip b = ''main''"
    and "fst (get_project_name e s) = Inr ''demo''"
  shows "\<exists>s'. save_git_commit_to_file e d s = (Inr True, s') \<and>
     lookup (root s') (P @ [''git_commit_'' @ strftime (clock e (reads s)) @ ''.txt'']) =
       Some (File
         (''Project Name: demo\<newline>'' @
          ''Branch Name: main\<newline>'' @
          ''Commit Hash: abc123\<newline>'' @
          ''View single commit: https://github.com/<user>/demo/commit/abc123\<newline>'' @
          ''View log: https://github.com/<user>/demo/commits/abc123\<newline>'' @
          ''/!'' @ [CHR 0x5C] @
          '' the files in the directory may have been modified since the last commit!!\<newline>''))"
proof -
  have n: "recorded_project_name e = ''demo''"
    using assms(9) by (simp add: get_project_name_value)
  show ?thesis
    using recorder_writes [OF assms(1-6)] assms(2)
    unfolding n assms(7,8)
    by (simp add: lookup_store_same lookup_append AList.update_conv' descriptor_lines_def)
qed

theorem descriptor_for_fixed_inputs_witness:
  "\<exists>s'. save_git_commit_to_file example_env ''reproducibility'' example_state = (Inr True, s') \<and>
     lookup (root s') [''reproducibility'', ''git_commit_20240309_140559.txt''] =
       Some (File
         (''Project Name: demo\<newline>'' @
          ''Branch Name: main\<newline>'' @
          ''Commit Hash: abc123\<newline>'' @
          ''View single commit: https://github.com/<user>/demo/commit/abc123\<newline>'' @
          ''View log: https://github.com/<user>/demo/commits/abc123\<newline>'' @
          ''/!'' @ [CHR 0x5C] @
          '' the files in the directory may have been modified since the last commit!!\<newline>''))"
proof -
  have r: "resolve ''reproducibility'' = Inr [''reproducibility'']"
    by (simp add: resolve_def)
  have l: "lookup (root example_state) [''reproducibility''] =
           Some (Dir [(''a.py_20240101_000000.txt'', File ''old'')])"
    by (simp add: example_state_def)
  have c: "clock example_env (reads example_state) = ticking_clock 0"
    by (simp add: example_env_def example_state_def)
  have f: "\<And>ys. map_of [(''a.py_20240101_000000.txt'', File ''old'')]
              (''git_commit_'' @ strftime (clock example_env (reads example_state)) @ ''.txt'')
            \<noteq> Some (Dir ys)"
    by simp
  have s: "strip ''abc123\<newline>'' = ''abc123''" "strip ''main\<newline>'' = ''main''"
    by (simp_all add: strip_def isspace_def)
  have n: "fst (get_project_name example_env example_state) = Inr ''demo''"
    by (simp add: get_project_name_value recorded_project_name_def example_env_def
        example_tools_def strip_def isspace_def project_name_of_url_def os_path_basename_def
        endswith_def)
  show ?thesis
    using descriptor_for_fixed_inputs [of "''reproducibility''" "[''reproducibility'']"
        example_state "[(''a.py_20240101_000000.txt'', File ''old'')]" example_env
        "Encoded ''true\<newline>''" "Encoded []" "''abc123\<newline>''" "Encoded []" "''main\<newline>''" "Encoded []",
        OF r l _ _ _ f s n]
    unfolding c strftime_ticking_0
    by (simp add: example_env_def example_tools_def)
qed

section \<open>The environment exporter\<close>

lemma subprocess_run_text_ok:
  "subprocess e shell argv = Exited rc (Encoded out) (Encoded err) \<Longrightarrow>
   subprocess_run_text e shell argv s = (Inr \<lparr>returncode = rc, stdout = out, stderr = err\<rparr>, s)"
  by (simp add: subprocess_run_text_def and_then_def decode_def ret_def)

lemma create_and_write_one:
  assumes p: "resolve p = Inr (P @ [n])" and P: "lookup (root s) P = Some (Dir xs)"
    and n: "\<And>ys. map_of xs n \<noteq> Some (Dir ys)"
  shows "and_then (open_w p) (\<lambda>f. and_then (file_write f text) k) s =
         k () (s\<lparr>root := store P (Dir (AList.update n (File text) xs)) (root s)\<rparr>)"
proof -
  have "and_then (file_write f text) k = and_then (write_all f [text]) k" for f
    by (auto simp: and_then_def ret_def fun_eq_iff split: prod.splits sum.splits)
  then show ?thesis
    using create_and_write [OF p P n, of "[text]" k] by simp
qed

lemma exporter_writes:
  assumes d: "resolve d = Inr P" and P: "lookup (root s) P = Some (Dir xs)"
    and listing: "subprocess e (platform_system e = ''Windows'')
          [if platform_system e = ''Windows''
           then (if conda_bat_exists e then ''conda.bat'' else ''conda'') else ''conda'',
           ''info'', ''--envs''] = Exited 0 (Encoded out) (Encoded err)"
    and found: "find_current_env (split_on CHR 0x0A (strip out)) s = (Inr (Some current_env), s)"
    and nonempty: "current_env \<noteq> []"
    and export: "subprocess e (platform_system e = ''Windows'')
          ([''conda'', ''env'', ''export'', ''-n'', current_env] @
           (if \<not> include_builds then [''--no-builds''] else []))
          = Exited 0 (Encoded manifest) (Encoded err')"
    and free: "\<And>ys. map_of xs (''conda_env_'' @ strftime (clock e (reads s)) @ ''.yml'')
                 \<noteq> Some (Dir ys)"
  shows "export_conda_environment e d include_builds s =
    (Inr None,
     s\<lparr>root := store P (Dir (AList.update
                 (''conda_env_'' @ strftime (clock e (reads s)) @ ''.yml'')
                 (File manifest) xs)) (root s),
       reads := Suc (reads s),
       printed := printed s @
         [''Running command: '' @ str_join '' ''
            ([''conda'', ''env'', ''export'', ''-n'', current_env] @
             (if \<not> include_builds then [''--no-builds''] else [])),
          ''Environment exported to '' @
          os_path_join d (''conda_env_'' @ current_env @ ''_'' @
                          strftime (clock e (reads s)) @ ''.yml'')]\<rparr>)"
proof -
  let ?name = "''conda_env_'' @ strftime (clock e (reads s)) @ ''.yml''"
  let ?cmd = "[''conda'', ''env'', ''export'', ''-n'', current_env] @
              (if \<not> include_builds then [''--no-builds''] else [])"
  let ?s2 = "s\<lparr>reads := Suc (reads s), printed := printed s @
                [''Running command: '' @ str_join '' '' ?cmd]\<rparr>"
  have r: "resolve (os_path_join d ?name) = Inr (P @ [?name])"
    using d by (rule resolve_join) (simp_all add: strftime_no_slash)
  have P2: "lookup (root ?s2) P = Some (Dir xs)" using P by simp
  have cw: "and_then (open_w (os_path_join d ?name))
              (\<lambda>f. and_then (file_write f c) k) ?s2 =
            k () (?s2\<lparr>root := store P (Dir (AList.update ?name (File c) xs))
                                 (root ?s2)\<rparr>)" for c k
    using r P2 free by (rule create_and_write_one)
  have s2: "s\<lparr>reads := Suc (reads s)\<rparr>\<lparr>printed := printed (s\<lparr>reads := Suc (reads s)\<rparr>) @
                [''Running command: '' @ str_join '' '' ?cmd]\<rparr> = ?s2"
    by simp
  show ?thesis
    unfolding export_conda_environment_def Let_def
    apply (simp only: and_then_Inr [OF subprocess_run_text_ok [OF listing]]
        and_then_Inr [OF subprocess_run_text_ok [OF export]]
        and_then_Inr [of "find_current_env (split_on CHR 0x0A (strip out))" s, OF found] nonempty
        and_then_now and_then_print s2 cw ret_def completed.simps
        if_False if_True option.case simp_thms)
    apply simp
    done
qed


lemma os_path_join_inject:
  assumes "take 1 a \<noteq> ''/''" and "take 1 b \<noteq> ''/''"
  shows "os_path_join d a = os_path_join d b \<longleftrightarrow> a = b"
  using assms by (simp add: os_path_join_def)

lemma lookup_store_sibling:
  assumes "lookup t P = Some (Dir xs)" and "m \<noteq> n"
  shows "lookup (store P (Dir (AList.update n v xs)) t) (P @ [m]) = lookup t (P @ [m])"
  using assms by (simp add: lookup_append lookup_store_same AList.update_conv')

text \<open>
  Claim C10. On every successful export (the listing names an active environment, the
  export command exits with 0, and the manifest can be created in the destination),
  \<^verbatim>\<open>export_conda_environment\<close> returns \<^verbatim>\<open>None\<close>, not a path; the file it writes
  is \<^verbatim>\<open>conda_env_{timestamp}.yml\<close>; the last line it prints names
  \<^verbatim>\<open>conda_env_{current_env}_{timestamp}.yml\<close>, a different path, and the call leaves
  whatever is at that path as it was.
\<close>

theorem export_returns_None_and_names_another_file:
  assumes "resolve d = Inr P" and "lookup (root s) P = Some (Dir xs)"
    and "subprocess e (platform_system e = ''Windows'')
          [if platform_system e = ''Windows''
           then (if conda_bat_exists e then ''conda.bat'' else ''conda'') else ''conda'',
           ''info'', ''--envs''] = Exited 0 (Encoded out) (Encoded err)"
    and "find_current_env (split_on CHR 0x0A (strip out)) s = (Inr (Some current_env), s)"
    and "current_env \<noteq> []"
    and "subprocess e (platform_system e = ''Windows'')
          ([''conda'', ''env'', ''export'', ''-n'', current_env] @
           (if \<not> include_builds then [''--no-builds''] else []))
          = Exited 0 (Encoded manifest) (Encoded err')"
    and "\<And>ys. map_of xs (''conda_env_'' @ strftime (clock e (reads s)) @ ''.yml'')
                 \<noteq> Some (Dir ys)"
  shows "\<exists>s'. export_conda_environment e d include_builds s = (Inr None, s') \<and>
     lookup (root s') (P @ [''conda_env_'' @ strftime (clock e (reads s)) @ ''.yml'']) =
       Some (File manifest) \<and>
     last (printed s') = ''Environment exported to '' @
       os_path_join d (''conda_env_'' @ current_env @ ''_'' @
                       strftime (clock e (reads s)) @ ''.yml'') \<and>
     os_path_join d (''conda_env_'' @ current_env @ ''_'' @
                     strftime (clock e (reads s)) @ ''.yml'') \<noteq>
       os_path_join d (''conda_env_'' @ strftime (clock e (reads s)) @ ''.yml'') \<and>
     lookup (root s') (P @ [''conda_env_'' @ current_env @ ''_'' @
                            strftime (clock e (reads s)) @ ''.yml'']) =
       lookup (root s) (P @ [''conda_env_'' @ current_env @ ''_'' @
                            strftime (clock e (reads s)) @ ''.yml''])"
proof -
  let ?ts = "strftime (clock e (reads s))"
  let ?written = "''conda_env_'' @ ?ts @ ''.yml''"
  let ?named = "''conda_env_'' @ current_env @ ''_'' @ ?ts @ ''.yml''"
  have "length ?named \<noteq> length ?written" by simp
  then have ne: "?named \<noteq> ?written" by metis
  have j: "os_path_join d ?named \<noteq> os_path_join d ?written"
    using ne by (subst os_path_join_inject) simp_all
  have w: "lookup (store P (Dir (AList.update ?written (File manifest) xs)) (root s))
             (P @ [?written]) = Some (File manifest)"
    using assms(2) by (simp add: lookup_append lookup_store_same AList.update_conv')
  have n: "lookup (store P (Dir (AList.update ?written (File manifest) xs)) (root s))
             (P @ [?named]) = lookup (root s) (P @ [?named])"
    using assms(2) ne by (rule lookup_store_sibling)
  show ?thesis
    unfolding exporter_writes [OF assms]
    using j w n by simp
qed

lemma find_current_env_none:
  "\<not> list_ex (\<lambda>line. CHR ''*'' \<in> set line) env_info \<Longrightarrow>
   find_current_env env_info s = (Inr None, s)"
proof -
  assume "\<not> list_ex (\<lambda>line. CHR ''*'' \<in> set line) env_info"
  then have "find (\<lambda>line. CHR ''*'' \<in> set line) env_info = None"
    by (simp add: find_None_iff list_ex_iff)
  then show ?thesis by (simp add: find_current_env_def ret_def)
qed

lemma export_raises:
  assumes listing: "subprocess e (platform_system e = ''Windows'')
          [if platform_system e = ''Windows''
           then (if conda_bat_exists e then ''conda.bat'' else ''conda'') else ''conda'',
           ''info'', ''--envs''] = Exited 0 (Encoded out) (Encoded err)"
    and no_row: "\<not> list_ex (\<lambda>line. CHR ''*'' \<in> set line) (split_on CHR 0x0A (strip out))"
  shows "export_conda_environment e d include_builds s =
         (Inl (RuntimeError ''Could not determine current conda environment''), s)"
  unfolding export_conda_environment_def Let_def
  by (simp only: and_then_Inr [OF subprocess_run_text_ok [OF listing]]
        and_then_Inr [OF find_current_env_none [OF no_row]]
        completed.simps simp_thms if_False option.case raise_def)

text \<open>
  Claim C2, as amended. Line 126 takes as the row of the active environment the first
  line of the listing that contains an asterisk, wherever in the line it stands. When the
  listing command exits with 0 and no line of its stripped output contains an asterisk,
  \<^verbatim>\<open>export_conda_environment\<close> raises \<^verbatim>\<open>RuntimeError\<close> and leaves the state
  as it found it: no manifest is written and nothing is printed.
  \<^verbatim>\<open>make_workflow_reproducible\<close> does not catch it: whenever the directory
  preparation, the source copy and the revision record have completed, the run ends with
  this exception raised to its caller, in exactly the state those three steps left, so
  their artifacts stay as they were.
\<close>

theorem no_active_environment_raises:
  assumes "subprocess e (platform_system e = ''Windows'')
          [if platform_system e = ''Windows''
           then (if conda_bat_exists e then ''conda.bat'' else ''conda'') else ''conda'',
           ''info'', ''--envs''] = Exited 0 (Encoded out) (Encoded err)"
    and "\<not> list_ex (\<lambda>line. CHR ''*'' \<in> set line) (split_on CHR 0x0A (strip out))"
  shows "export_conda_environment e d include_builds s =
           (Inl (RuntimeError ''Could not determine current conda environment''), s) \<and>
         (\<forall>saved s1.
            and_then (prepare_directory (os_path_join w_d ''reproducibility'')) (\<lambda>u.
            and_then (save_files_rootdir e (os_path_join w_d ''reproducibility'') [''.py''])
              (\<lambda>u.
            save_git_commit_to_file e (os_path_join w_d ''reproducibility''))) s
              = (Inr saved, s1) \<longrightarrow>
            make_workflow_reproducible e w_d s =
              (Inl (RuntimeError ''Could not determine current conda environment''), s1))"
proof (intro conjI allI impI)
  show "export_conda_environment e d include_builds s =
        (Inl (RuntimeError ''Could not determine current conda environment''), s)"
    using assms by (rule export_raises)
next
  fix saved s1
  let ?r_d = "os_path_join w_d ''reproducibility''"
  assume "and_then (prepare_directory ?r_d) (\<lambda>u.
            and_then (save_files_rootdir e ?r_d [''.py'']) (\<lambda>u.
            save_git_commit_to_file e ?r_d)) s = (Inr saved, s1)"
  then obtain s2 s3 where
      p: "prepare_directory ?r_d s = (Inr (), s2)"
    and c: "save_files_rootdir e ?r_d [''.py''] s2 = (Inr (), s3)"
    and g: "save_git_commit_to_file e ?r_d s3 = (Inr saved, s1)"
    by (auto elim!: and_then_InrE)
  have x: "export_conda_environment e ?r_d False s1 =
        (Inl (RuntimeError ''Could not determine current conda environment''), s1)"
    using assms by (rule export_raises)
  show "make_workflow_reproducible e w_d s =
        (Inl (RuntimeError ''Could not determine current conda environment''), s1)"
    unfolding make_workflow_reproducible_def Let_def
    by (simp add: and_then_def p c g x)
qed

section \<open>The source copier\<close>

lemma resolve_plain: "plain_name f \<Longrightarrow> resolve f = Inr [f]"
proof -
  assume p: "plain_name f"
  then have "split_on CHR ''/'' f = [f]" by (simp add: plain_name_def split_on_no_sep)
  moreover have "take 1 f \<noteq> ''/''" using p by (cases f) (auto simp: plain_name_def)
  ultimately show ?thesis using p by (auto simp: resolve_def plain_name_def)
qed

lemma read_file_ok:
  "resolve p = Inr cs \<Longrightarrow> lookup (root s) cs = Some (File c) \<Longrightarrow> read_file p s = (Inr c, s)"
  by (simp add: read_file_def)

lemma copy2_ok:
  assumes src: "resolve src = Inr S" "lookup (root s) S = Some (File c)"
    and dst: "resolve dst = Inr (P @ [n])" "lookup (root s) P = Some (Dir xs)"
      "\<And>ys. map_of xs n \<noteq> Some (Dir ys)"
    and diff: "S \<noteq> P @ [n]"
  shows "shutil_copy2 src dst s =
         (Inr dst, s\<lparr>root := store P (Dir (AList.update n (File c) xs)) (root s)\<rparr>)"
proof -
  have "lookup (root s) (P @ [n]) = map_of xs n" using dst(2) by (rule lookup_child)
  then have nd: "\<not> os_path_isdir dst s"
    using dst(1,3) by (auto simp: os_path_isdir_def split: option.splits node.splits)
  have ns: "\<not> samefile src dst s" using src(1) dst(1) diff by (simp add: samefile_def)
  have rd: "read_file src s = (Inr c, s)" using src by (rule read_file_ok)
  have cw: "and_then (open_w dst) (\<lambda>f. and_then (file_write f c) k) s =
         k () (s\<lparr>root := store P (Dir (AList.update n (File c) xs)) (root s)\<rparr>)" for k
    using dst by (rule create_and_write_one)
  have fw: "(\<lambda>f. file_write f c) = (\<lambda>f. and_then (file_write f c) ret)"
    by (auto simp: and_then_def ret_def fun_eq_iff split: prod.splits sum.splits)
  have "copyfile src dst s =
        (Inr (), s\<lparr>root := store P (Dir (AList.update n (File c) xs)) (root s)\<rparr>)"
    unfolding copyfile_def using ns
    by (simp add: and_then_Inr [of "read_file src" s, OF rd] fw cw ret_def)
  then show ?thesis
    unfolding shutil_copy2_def Let_def using nd by (simp add: and_then_def ret_def)
qed

lemma lookup_store_other_top:
  "g \<noteq> p \<Longrightarrow> lookup (store (p # ps) v t) [g] = lookup t [g]"
  by (cases t) (auto simp: AList.update_conv' split: option.splits)

lemma long_not_dots:
  assumes "2 < length t"
  shows "t \<noteq> []" and "t \<noteq> ''.''" and "t \<noteq> ''..''"
  using assms by auto

lemma copy_name_resolves:
  assumes "resolve d = Inr P" and "CHR ''/'' \<notin> set f"
  shows "resolve (os_path_join d (f @ ''_'' @ strftime dt @ ''.txt'')) =
         Inr (P @ [f @ ''_'' @ strftime dt @ ''.txt''])"
proof (rule resolve_join [OF assms(1)])
  show "CHR ''/'' \<notin> set (f @ ''_'' @ strftime dt @ ''.txt'')"
    using assms(2) by (simp add: strftime_no_slash)
  have "2 < length (f @ ''_'' @ strftime dt @ ''.txt'')" by simp
  then show "f @ ''_'' @ strftime dt @ ''.txt'' \<noteq> []"
    and "f @ ''_'' @ strftime dt @ ''.txt'' \<noteq> ''.''"
    and "f @ ''_'' @ strftime dt @ ''.txt'' \<noteq> ''..''"
    by (rule long_not_dots)+
qed

lemma copy_each_ok:
  assumes d: "resolve d = Inr (p # ps)"
    and P: "lookup (root s) (p # ps) = Some (Dir xs)"
    and src: "\<And>f. f \<in> set files \<Longrightarrow>
          plain_name f \<and> f \<noteq> p \<and> (\<exists>c. map_of es f = Some (File c)) \<and>
          lookup (root s) [f] = map_of es f"
    and free: "\<And>f ys. f \<in> set files \<Longrightarrow>
          map_of xs (f @ ''_'' @ strftime dt @ ''.txt'') \<noteq> Some (Dir ys)"
  shows "copy_each d (strftime dt) files s =
         (Inr (), s\<lparr>root := store (p # ps)
                     (Dir (copies_into (strftime dt) es files xs)) (root s)\<rparr>)"
  using P src free
proof (induction files arbitrary: s xs)
  case Nil
  then show ?case by (simp add: ret_def store_present)
next
  case (Cons f fs)
  let ?n = "f @ ''_'' @ strftime dt @ ''.txt''"
  from Cons.prems(2) [of f] obtain c where
    f: "plain_name f" "f \<noteq> p" "map_of es f = Some (File c)" "lookup (root s) [f] = map_of es f"
    by auto
  let ?xs1 = "AList.update ?n (File c) xs"
  let ?s1 = "s\<lparr>root := store (p # ps) (Dir ?xs1) (root s)\<rparr>"
  have rs: "resolve f = Inr [f]" using f(1) by (rule resolve_plain)
  have rdst: "resolve (os_path_join d ?n) = Inr ((p # ps) @ [?n])"
    using d f(1) by (intro copy_name_resolves) (simp_all add: plain_name_def)
  have nodir: "\<And>ys. map_of xs ?n \<noteq> Some (Dir ys)" using Cons.prems(3) [of f] by simp
  have cp: "shutil_copy2 f (os_path_join d ?n) s = (Inr (os_path_join d ?n), ?s1)"
  proof (rule copy2_ok [OF rs _ rdst Cons.prems(1) nodir])
    show "lookup (root s) [f] = Some (File c)" using f by simp
    show "[f] \<noteq> (p # ps) @ [?n]" by (cases ps) auto
  qed
  have P1: "lookup (root ?s1) (p # ps) = Some (Dir ?xs1)"
    using Cons.prems(1) by (simp add: lookup_store_same del: store.simps lookup.simps)
  have src1: "plain_name g \<and> g \<noteq> p \<and> (\<exists>c. map_of es g = Some (File c)) \<and>
          lookup (root ?s1) [g] = map_of es g" if "g \<in> set fs" for g
  proof -
    from that Cons.prems(2) [of g] have g: "plain_name g" "g \<noteq> p"
      "\<exists>c. map_of es g = Some (File c)" "lookup (root s) [g] = map_of es g" by auto
    have "lookup (root ?s1) [g] = lookup (root s) [g]"
      using g(2) by (simp add: lookup_store_other_top del: store.simps lookup.simps)
    with g show ?thesis by simp
  qed
  have free1: "map_of ?xs1 (g @ ''_'' @ strftime dt @ ''.txt'') \<noteq> Some (Dir ys)"
    if "g \<in> set fs" for g ys
    using that Cons.prems(3) [of g ys] by (simp add: AList.update_conv')
  have ih: "copy_each d (strftime dt) fs ?s1 =
         (Inr (), ?s1\<lparr>root := store (p # ps)
                     (Dir (copies_into (strftime dt) es fs ?xs1)) (root ?s1)\<rparr>)"
    using P1 src1 free1 by (rule Cons.IH)
  have fin: "?s1\<lparr>root := store (p # ps)
                     (Dir (copies_into (strftime dt) es fs ?xs1)) (root ?s1)\<rparr> =
        s\<lparr>root := store (p # ps)
                     (Dir (copies_into (strftime dt) es (f # fs) xs)) (root s)\<rparr>"
    using f(3) by (simp add: store_store del: store.simps)
  show ?case
    using cp ih unfolding fin by (simp add: and_then_def)
qed

lemma os_listdir_cwd: "root s = Dir es \<Longrightarrow> os_listdir ''.'' s = (Inr (map fst es), s)"
  by (simp add: os_listdir_def resolve_def)

lemma file_not_on_path:
  assumes "lookup (Dir es) (p # ps) = Some (Dir xs)" and "map_of es f = Some (File c)"
  shows "f \<noteq> p"
proof
  assume "f = p"
  with assms show False by (cases ps) auto
qed

lemma copier_ok:
  assumes d: "resolve d = Inr (p # ps)"
    and root: "root s = Dir es"
    and P: "lookup (root s) (p # ps) = Some (Dir xs)"
    and src: "\<And>f. f \<in> set (map fst es) \<Longrightarrow> list_ex (endswith f) exts \<Longrightarrow>
          plain_name f \<and> (\<exists>c. map_of es f = Some (File c))"
    and free: "\<And>f ys. f \<in> set (map fst es) \<Longrightarrow> list_ex (endswith f) exts \<Longrightarrow>
          map_of xs (f @ ''_'' @ strftime (clock e (reads s)) @ ''.txt'') \<noteq> Some (Dir ys)"
  shows "save_files_rootdir e d exts s =
    (Inr (),
     s\<lparr>root := store (p # ps)
          (Dir (copies_into (strftime (clock e (reads s))) es
                  (filter (\<lambda>n. list_ex (endswith n) exts) (map fst es)) xs)) (root s),
       reads := Suc (reads s)\<rparr>)"
proof -
  let ?s1 = "s\<lparr>reads := Suc (reads s)\<rparr>"
  let ?files = "filter (\<lambda>n. list_ex (endswith n) exts) (map fst es)"
  have ls: "os_listdir ''.'' ?s1 = (Inr (map fst es), ?s1)"
    using root by (intro os_listdir_cwd) simp
  have P1: "lookup (root ?s1) (p # ps) = Some (Dir xs)" using P by simp
  have src1: "plain_name f \<and> f \<noteq> p \<and> (\<exists>c. map_of es f = Some (File c)) \<and>
          lookup (root ?s1) [f] = map_of es f" if "f \<in> set ?files" for f
  proof -
    from that src [of f] obtain c where f: "plain_name f" "map_of es f = Some (File c)"
      by auto
    have "f \<noteq> p" using P f(2) unfolding root by (rule file_not_on_path)
    moreover have "lookup (root ?s1) [f] = map_of es f"
      using root f(2) by simp
    ultimately show ?thesis using f by simp
  qed
  have free1: "map_of xs (f @ ''_'' @ strftime (clock e (reads s)) @ ''.txt'') \<noteq> Some (Dir ys)"
    if "f \<in> set ?files" for f ys
    using that free [of f ys] by simp
  have ce: "copy_each d (strftime (clock e (reads s))) ?files ?s1 =
         (Inr (), ?s1\<lparr>root := store (p # ps)
              (Dir (copies_into (strftime (clock e (reads s))) es ?files xs)) (root ?s1)\<rparr>)"
    using d P1 src1 free1 by (rule copy_each_ok)
  show ?thesis
    unfolding save_files_rootdir_def Let_def and_then_now
    using ls ce by (simp add: and_then_def del: store.simps)
qed

text \<open>
  Claim C8. In a working directory that holds exactly the files \<^verbatim>\<open>a.py\<close>,
  \<^verbatim>\<open>b.py\<close> and \<^verbatim>\<open>notes.txt\<close>, next to the empty destination directory,
  \<^verbatim>\<open>save_files_rootdir\<close> with the filter \<^verbatim>\<open>[".py"]\<close> completes and leaves in
  the destination exactly \<^verbatim>\<open>a.py_<ts>.txt\<close> and \<^verbatim>\<open>b.py_<ts>.txt\<close>, with the
  content of their sources, where \<^verbatim>\<open><ts>\<close> is the clock reading of the call; there is
  no copy of \<^verbatim>\<open>notes.txt\<close>, and the three sources are left as they were.
\<close>

theorem copier_scenario:
  assumes "root s = Dir [(''a.py'', File ca), (''b.py'', File cb), (''notes.txt'', File cn),
                         (dn, Dir [])]"
    and "resolve d = Inr [dn]" and "\<not> endswith dn ''.py''" and "dn \<noteq> ''notes.txt''"
  shows "\<exists>s'. save_files_rootdir e d [''.py''] s = (Inr (), s') \<and>
     lookup (root s') [dn] =
       Some (Dir [(''a.py_'' @ strftime (clock e (reads s)) @ ''.txt'', File ca),
                  (''b.py_'' @ strftime (clock e (reads s)) @ ''.txt'', File cb)]) \<and>
     lookup (root s') [''a.py''] = Some (File ca) \<and>
     lookup (root s') [''b.py''] = Some (File cb) \<and>
     lookup (root s') [''notes.txt''] = Some (File cn)"
proof -
  let ?es = "[(''a.py'', File ca), (''b.py'', File cb), (''notes.txt'', File cn), (dn, Dir [])]"
  have n: "dn \<noteq> ''a.py''" "dn \<noteq> ''b.py''"
    using assms(3) by (auto simp: endswith_def)
  have P: "lookup (root s) [dn] = Some (Dir [])"
    using assms(1,4) n by simp
  have src: "plain_name f \<and> (\<exists>c. map_of ?es f = Some (File c))"
    if "f \<in> set (map fst ?es)" "list_ex (endswith f) [''.py'']" for f
    using that assms(3) by (auto simp: plain_name_def endswith_def)
  have free: "map_of [] (f @ ''_'' @ strftime (clock e (reads s)) @ ''.txt'') \<noteq> Some (Dir ys)"
    for f ys by simp
  have files: "filter (\<lambda>n. list_ex (endswith n) [''.py'']) (map fst ?es) = [''a.py'', ''b.py'']"
    using assms(3) by (simp add: endswith_def)
  have run: "save_files_rootdir e d [''.py''] s =
    (Inr (),
     s\<lparr>root := store [dn]
          (Dir (copies_into (strftime (clock e (reads s))) ?es [''a.py'', ''b.py''] [])) (root s),
       reads := Suc (reads s)\<rparr>)"
    using copier_ok [where exts = "[''.py'']" and e = e, OF assms(2) assms(1) P src free]
    unfolding files by simp
  show ?thesis
    unfolding run using assms(4) n by (simp add: assms(1))
qed

theorem copier_scenario_witness:
  "\<exists>s'. save_files_rootdir example_env ''out'' [''.py''] scenario_state = (Inr (), s') \<and>
     lookup (root s') [''out''] =
       Some (Dir [(''a.py_20240309_140559.txt'', File ''import b''),
                  (''b.py_20240309_140559.txt'', File ''pass'')]) \<and>
     lookup (root s') [''a.py''] = Some (File ''import b'') \<and>
     lookup (root s') [''b.py''] = Some (File ''pass'') \<and>
     lookup (root s') [''notes.txt''] = Some (File ''to do'')"
proof -
  have r: "resolve ''out'' = Inr [''out'']" by (simp add: resolve_def)
  have c: "clock example_env (reads scenario_state) = ticking_clock 0"
    by (simp add: example_env_def scenario_state_def)
  show ?thesis
    using copier_scenario [of scenario_state "''import b''" "''pass''" "''to do''" "''out''"
        "''out''" example_env, OF _ r]
    unfolding c strftime_ticking_0
    by (simp add: scenario_state_def endswith_def)
qed

lemma delete_absent: "map_of ds r = None \<Longrightarrow> AList.delete r ds = ds"
  by (induction ds) (auto split: if_splits)

lemma prepare_ok:
  assumes p: "resolve r_d = Inr (Q @ [r])"
    and Q: "lookup (root s) Q = Some (Dir ds)"
    and r: "map_of ds r = None \<or> (\<exists>old. map_of ds r = Some (Dir old))"
  shows "prepare_directory r_d s =
         (Inr (), s\<lparr>root := store Q (Dir (AList.update r (Dir []) (AList.delete r ds)))
                               (root s)\<rparr>)"
proof -
  have child: "lookup (root s) (Q @ [r]) = map_of ds r" using Q by (rule lookup_child)
  from r show ?thesis
  proof
    assume a: "map_of ds r = None"
    then have ne: "\<not> os_path_exists r_d s" using p child by (simp add: os_path_exists_def)
    have mk: "os_mkdir r_d s = (Inr (), s\<lparr>root := store (Q @ [r]) (Dir []) (root s)\<rparr>)"
      using p Q a by (simp add: os_mkdir_def)
    have "store (Q @ [r]) (Dir []) (root s) =
          store Q (Dir (AList.update r (Dir []) (AList.delete r ds))) (root s)"
      using Q a by (simp add: store_child delete_absent)
    then show ?thesis
      unfolding prepare_directory_def using ne mk by (simp add: and_then_def ret_def)
  next
    assume "\<exists>old. map_of ds r = Some (Dir old)"
    then obtain old where a: "map_of ds r = Some (Dir old)" ..
    then have ex: "os_path_exists r_d s" using p child by (simp add: os_path_exists_def)
    let ?s1 = "s\<lparr>root := store Q (Dir (AList.delete r ds)) (root s)\<rparr>"
    have rm: "shutil_rmtree r_d s = (Inr (), ?s1)"
      using p child a Q by (simp add: shutil_rmtree_def remove_append)
    have Q1: "lookup (root ?s1) Q = Some (Dir (AList.delete r ds))"
      using Q by (simp add: lookup_store_same)
    have "map_of (AList.delete r ds) r = None" by (simp add: AList.delete_conv')
    then have mk: "os_mkdir r_d ?s1 =
        (Inr (), ?s1\<lparr>root := store (Q @ [r]) (Dir []) (root ?s1)\<rparr>)"
      using p Q1 by (simp add: os_mkdir_def)
    have "store (Q @ [r]) (Dir []) (root ?s1) =
          store Q (Dir (AList.update r (Dir []) (AList.delete r ds))) (root s)"
      using Q1 by (simp add: store_child store_store)
    then show ?thesis
      unfolding prepare_directory_def using ex rm mk by (simp add: and_then_def)
  qed
qed


section \<open>The directory preparer and the source copier in a run\<close>

lemma store_dest:
  assumes "lookup t Q = Some (Dir ds)"
  shows "store (Q @ [r]) X (store Q (Dir (AList.update r Y D)) t) =
         store Q (Dir (AList.update r X D)) t"
    and "lookup (store Q (Dir (AList.update r Y D)) t) (Q @ [r]) = Some Y"
proof -
  have l: "lookup (store Q (Dir (AList.update r Y D)) t) Q = Some (Dir (AList.update r Y D))"
    using assms by (rule lookup_store_same)
  show "store (Q @ [r]) X (store Q (Dir (AList.update r Y D)) t) =
         store Q (Dir (AList.update r X D)) t"
    unfolding store_child [OF l] by (simp add: store_store del: store.simps)
  show "lookup (store Q (Dir (AList.update r Y D)) t) (Q @ [r]) = Some Y"
    unfolding lookup_child [OF l] by (simp add: AList.update_conv')
qed

lemma copies_into_cong:
  "(\<And>f. f \<in> set files \<Longrightarrow> map_of es1 f = map_of es f) \<Longrightarrow>
   copies_into ts es1 files xs = copies_into ts es files xs"
  by (induction files arbitrary: xs) simp_all

lemma prepared_listing:
  assumes Q: "lookup (Dir es) Q = Some (Dir ds)"
    and r: "map_of ds r = None \<or> (\<exists>old. map_of ds r = Some (Dir old))"
    and npy: "\<not> sel r"
  shows "\<exists>es1. store Q (Dir (AList.update r X (AList.delete r ds))) (Dir es) = Dir es1 \<and>
         filter sel (map fst es1) = filter sel (map fst es) \<and>
         (\<forall>f c. map_of es f = Some (File c) \<longrightarrow> map_of es1 f = Some (File c))"
proof (cases Q)
  case Nil
  with Q have ds: "ds = es" by simp
  have k: "map fst (AList.update r X (AList.delete r es)) = map fst (AList.delete r es) @ [r]"
    by (auto simp: AList.update_keys AList.delete_eq)
  have "filter sel (map fst (AList.delete r es)) = filter sel (map fst es)"
    using npy by (induction es) (auto simp: AList.delete_eq)
  then have "filter sel (map fst (AList.update r X (AList.delete r es))) =
             filter sel (map fst es)"
    unfolding k using npy by simp
  moreover have "map_of (AList.update r X (AList.delete r es)) f = Some (File c)"
    if "map_of es f = Some (File c)" for f c
    using that r unfolding ds by (auto simp: AList.update_conv' AList.delete_conv')
  ultimately show ?thesis using Nil ds by simp
next
  case (Cons q qs)
  with Q obtain m where m: "map_of es q = Some m" "lookup m qs = Some (Dir ds)"
    by (auto split: option.splits)
  let ?v = "store qs (Dir (AList.update r X (AList.delete r ds))) m"
  have st: "store Q (Dir (AList.update r X (AList.delete r ds))) (Dir es) =
            Dir (AList.update q ?v es)"
    using Cons m by (cases qs) auto
  have "q \<in> fst ` set es" using m(1) by (metis map_of_eq_None_iff option.distinct(1))
  then have k: "map fst (AList.update q ?v es) = map fst es"
    by (simp add: AList.update_keys)
  have "map_of (AList.update q ?v es) f = Some (File c)"
    if "map_of es f = Some (File c)" for f c
  proof -
    have "f \<noteq> q" using Q that unfolding Cons by (rule file_not_on_path)
    with that show ?thesis by (simp add: AList.update_conv')
  qed
  with st k show ?thesis by simp
qed

lemma resolve_destination:
  "resolve w_d = Inr Q \<Longrightarrow>
   resolve (os_path_join w_d ''reproducibility'') = Inr (Q @ [''reproducibility''])"
  by (rule resolve_join) simp_all

lemma run_prefix:
  assumes w: "resolve w_d = Inr Q" and root: "root s = Dir es"
    and Q: "lookup (root s) Q = Some (Dir ds)"
    and r: "map_of ds ''reproducibility'' = None \<or>
            (\<exists>old. map_of ds ''reproducibility'' = Some (Dir old))"
    and src: "\<And>f. f \<in> set (map fst es) \<Longrightarrow> endswith f ''.py'' \<Longrightarrow>
              plain_name f \<and> (\<exists>c. map_of es f = Some (File c))"
  shows "and_then (prepare_directory (os_path_join w_d ''reproducibility''))
           (\<lambda>u. save_files_rootdir e (os_path_join w_d ''reproducibility'') [''.py'']) s =
     (Inr (),
      s\<lparr>root := store Q (Dir (AList.update ''reproducibility''
                 (Dir (copies_into (strftime (clock e (reads s))) es
                         (filter (\<lambda>n. endswith n ''.py'') (map fst es)) []))
                 (AList.delete ''reproducibility'' ds))) (root s),
        reads := Suc (reads s)\<rparr>)"
proof -
  let ?r = "''reproducibility''"
  let ?r_d = "os_path_join w_d ?r"
  let ?D = "AList.delete ?r ds"
  let ?sel = "\<lambda>n. endswith n ''.py''"
  let ?files = "filter ?sel (map fst es)"
  let ?ts = "strftime (clock e (reads s))"
  let ?s1 = "s\<lparr>root := store Q (Dir (AList.update ?r (Dir []) ?D)) (root s)\<rparr>"
  have rd: "resolve ?r_d = Inr (Q @ [?r])" using w by (rule resolve_destination)
  have p: "prepare_directory ?r_d s = (Inr (), ?s1)" using rd Q r by (rule prepare_ok)
  have npy: "\<not> ?sel ?r" by (simp add: endswith_def)
  from prepared_listing [of es Q ds ?r ?sel "Dir []", OF Q [unfolded root] r npy]
  obtain es1 where es1: "store Q (Dir (AList.update ?r (Dir []) ?D)) (Dir es) = Dir es1"
    and fl: "filter ?sel (map fst es1) = ?files"
    and ct: "\<And>f c. map_of es f = Some (File c) \<Longrightarrow> map_of es1 f = Some (File c)"
    by blast
  have root1: "root ?s1 = Dir es1" using es1 root by simp
  have P1: "lookup (root ?s1) (Q @ [?r]) = Some (Dir [])"
    using store_dest(2) [OF Q] by simp
  obtain p ps where pp: "Q @ [?r] = p # ps" by (cases Q) auto
  have in_files: "f \<in> set (map fst es) \<and> endswith f ''.py''"
    if "f \<in> set (map fst es1)" "list_ex (endswith f) [''.py'']" for f
  proof -
    from that have "f \<in> set (filter ?sel (map fst es1))" by simp
    then show ?thesis unfolding fl by simp
  qed
  have src1: "plain_name f \<and> (\<exists>c. map_of es1 f = Some (File c))"
    if "f \<in> set (map fst es1)" "list_ex (endswith f) [''.py'']" for f
    using in_files [OF that] src [of f] ct [of f] by blast
  have free1: "map_of [] (f @ ''_'' @ strftime (clock e (reads ?s1)) @ ''.txt'') \<noteq> Some (Dir ys)"
    for f ys by simp
  have cong: "copies_into ?ts es1 ?files [] = copies_into ?ts es ?files []"
  proof (rule copies_into_cong)
    fix f assume "f \<in> set ?files"
    then obtain c where "map_of es f = Some (File c)" using src [of f] by auto
    then show "map_of es1 f = map_of es f" using ct by simp
  qed
  have "list_ex (endswith n) [''.py''] = endswith n ''.py''" for n by simp
  then have fl1: "filter (\<lambda>n. list_ex (endswith n) [''.py'']) (map fst es1) = ?files"
    using fl by simp
  have c: "save_files_rootdir e ?r_d [''.py''] ?s1 =
     (Inr (),
      ?s1\<lparr>root := store (Q @ [?r]) (Dir (copies_into ?ts es ?files [])) (root ?s1),
          reads := Suc (reads ?s1)\<rparr>)"
    using copier_ok [where exts = "[''.py'']" and e = e,
        OF rd [unfolded pp] root1 P1 [unfolded pp] src1 free1]
    by (simp add: fl cong pp [symmetric] del: store.simps)
  have fin: "store (Q @ [?r]) (Dir (copies_into ?ts es ?files [])) (root ?s1) =
        store Q (Dir (AList.update ?r (Dir (copies_into ?ts es ?files [])) ?D)) (root s)"
    using store_dest(1) [OF Q] by simp
  show ?thesis
    using p c unfolding fin by (simp add: and_then_def del: store.simps)
qed

lemma find_current_env_state:
  "find_current_env lines s = (Inr v, s') \<Longrightarrow> find_current_env lines t = (Inr v, t)"
  by (auto simp: find_current_env_def ret_def raise_def split: option.splits list.splits if_splits)

lemma copies_only_files:
  assumes "\<And>n ys. map_of xs n \<noteq> Some (Dir ys)"
    and "\<And>f. f \<in> set files \<Longrightarrow> \<exists>c. map_of es f = Some (File c)"
  shows "map_of (copies_into ts es files xs) n \<noteq> Some (Dir ys)"
  using assms
proof (induction files arbitrary: xs)
  case Nil
  then show ?case by simp
next
  case (Cons f fs)
  from Cons.prems(2) [of f] obtain c where c: "map_of es f = Some (File c)" by auto
  have "map_of (copies_into ts es fs (AList.update (f @ ''_'' @ ts @ ''.txt'') (File c) xs)) n
        \<noteq> Some (Dir ys)"
  proof (rule Cons.IH)
    show "map_of (AList.update (f @ ''_'' @ ts @ ''.txt'') (File c) xs) m \<noteq> Some (Dir zs)"
      for m zs using Cons.prems(1) [of m zs] by (simp add: AList.update_conv')
    show "\<exists>c. map_of es g = Some (File c)" if "g \<in> set fs" for g
      using that Cons.prems(2) [of g] by simp
  qed
  with c show ?case by simp
qed

lemma copies_names:
  assumes "\<And>f. f \<in> set files \<Longrightarrow> \<exists>c. map_of es f = Some (File c)"
  shows "fst ` set (copies_into ts es files xs) =
         fst ` set xs \<union> (\<lambda>f. f @ ''_'' @ ts @ ''.txt'') ` set files"
  using assms
proof (induction files arbitrary: xs)
  case Nil
  then show ?case by simp
next
  case (Cons f fs)
  from Cons.prems [of f] obtain c where c: "map_of es f = Some (File c)" by auto
  have "fst ` set (copies_into ts es fs (AList.update (f @ ''_'' @ ts @ ''.txt'') (File c) xs)) =
        fst ` set (AList.update (f @ ''_'' @ ts @ ''.txt'') (File c) xs) \<union>
        (\<lambda>f. f @ ''_'' @ ts @ ''.txt'') ` set fs"
    by (rule Cons.IH) (use Cons.prems in simp)
  with c show ?case by (auto simp: AList.dom_update)
qed

lemma and_then_assoc: "and_then (and_then m k) h = and_then m (\<lambda>x. and_then (k x) h)"
  by (auto simp: and_then_def fun_eq_iff split: prod.splits sum.splits)

lemma run_split:
  "make_workflow_reproducible e w_d =
     and_then
       (and_then (prepare_directory (os_path_join w_d ''reproducibility''))
          (\<lambda>u. save_files_rootdir e (os_path_join w_d ''reproducibility'') [''.py'']))
       (\<lambda>u. and_then (save_git_commit_to_file e (os_path_join w_d ''reproducibility''))
          (\<lambda>saved. and_then (export_conda_environment e (os_path_join w_d ''reproducibility'') False)
             (\<lambda>exported. ret ())))"
  by (simp add: make_workflow_reproducible_def Let_def and_then_assoc)

lemma recorder_fails:
  assumes "subprocess e False [''git'', ''rev-parse'', ''--is-inside-work-tree''] = Not_started x
         \<or> (\<exists>rc out err. subprocess e False [''git'', ''rev-parse'', ''--is-inside-work-tree'']
                = Exited rc out err \<and> rc \<noteq> 0)"
  shows "save_git_commit_to_file e d s =
     (Inr False,
      s\<lparr>printed := printed s @
         [case subprocess e False [''git'', ''rev-parse'', ''--is-inside-work-tree''] of
            Not_started x \<Rightarrow>
              if x = CalledProcessError
              then ''Error: Not a git repository or git is not installed.''
              else ''Error: '' @ str_exn e x
          | Exited rc out err \<Rightarrow> ''Error: Not a git repository or git is not installed.'']\<rparr>)"
  using assms
  by (auto simp: save_git_commit_to_file_def save_git_commit_to_file_try_def try_except_def
      and_then_def subprocess_run_check_def raise_def ret_def print_def)

section \<open>Whole runs\<close>

lemma lookup_with_destination:
  "lookup t Q = Some (Dir ds) \<Longrightarrow>
   lookup (with_destination Q ds xs t) (Q @ [''reproducibility'']) = Some (Dir xs)"
  unfolding with_destination_def by (rule store_dest(2))

lemma store_with_destination:
  "lookup t Q = Some (Dir ds) \<Longrightarrow>
   store (Q @ [''reproducibility'']) (Dir ys) (with_destination Q ds xs t) =
   with_destination Q ds ys t"
  unfolding with_destination_def by (rule store_dest(1))

lemma run_two:
  assumes "resolve w_d = Inr Q" and "root s = Dir es"
    and "lookup (root s) Q = Some (Dir ds)"
    and "map_of ds ''reproducibility'' = None \<or>
         (\<exists>old. map_of ds ''reproducibility'' = Some (Dir old))"
    and "\<And>f. f \<in> set (map fst es) \<Longrightarrow> endswith f ''.py'' \<Longrightarrow>
              plain_name f \<and> (\<exists>c. map_of es f = Some (File c))"
  shows "and_then (prepare_directory (os_path_join w_d ''reproducibility''))
           (\<lambda>u. save_files_rootdir e (os_path_join w_d ''reproducibility'') [''.py'']) s =
     (Inr (),
      s\<lparr>root := with_destination Q ds
                 (copies_into (strftime (clock e (reads s))) es (py_files es) []) (root s),
        reads := Suc (reads s)\<rparr>)"
  unfolding with_destination_def py_files_def using assms by (rule run_prefix)

lemma copies_free:
  assumes "\<And>f. f \<in> set (map fst es) \<Longrightarrow> endswith f ''.py'' \<Longrightarrow>
              plain_name f \<and> (\<exists>c. map_of es f = Some (File c))"
  shows "map_of (copies_into ts es (py_files es) []) n \<noteq> Some (Dir ys)"
proof (rule copies_only_files)
  show "map_of [] m \<noteq> Some (Dir zs)" for m zs by simp
  show "\<exists>c. map_of es f = Some (File c)" if "f \<in> set (py_files es)" for f
    using that assms [of f] by (simp add: py_files_def)
qed

lemma run_three:
  assumes w: "resolve w_d = Inr Q" and root: "root s = Dir es"
    and Q: "lookup (root s) Q = Some (Dir ds)"
    and r: "map_of ds ''reproducibility'' = None \<or>
         (\<exists>old. map_of ds ''reproducibility'' = Some (Dir old))"
    and src: "\<And>f. f \<in> set (map fst es) \<Longrightarrow> endswith f ''.py'' \<Longrightarrow>
              plain_name f \<and> (\<exists>c. map_of es f = Some (File c))"
    and inside: "subprocess e False [''git'', ''rev-parse'', ''--is-inside-work-tree'']
                 = Exited 0 o1 e1"
    and head: "subprocess e False [''git'', ''rev-parse'', ''HEAD''] = Exited 0 (Encoded h) e2"
    and branch: "subprocess e False [''git'', ''rev-parse'', ''--abbrev-ref'', ''HEAD'']
                 = Exited 0 (Encoded b) e3"
  shows "and_then (prepare_directory (os_path_join w_d ''reproducibility'')) (\<lambda>u.
         and_then (save_files_rootdir e (os_path_join w_d ''reproducibility'') [''.py''])
           (\<lambda>u.
         save_git_commit_to_file e (os_path_join w_d ''reproducibility''))) s =
     (Inr True,
      s\<lparr>root := with_destination Q ds
          (AList.update (''git_commit_'' @ strftime (clock e (Suc (reads s))) @ ''.txt'')
             (File (concat (descriptor_lines (recorded_project_name e) (strip b) (strip h))))
             (copies_into (strftime (clock e (reads s))) es (py_files es) [])) (root s),
        reads := Suc (Suc (reads s)),
        printed := printed s @
          [''Git information saved to '' @
           os_path_join (os_path_join w_d ''reproducibility'')
             (''git_commit_'' @ strftime (clock e (Suc (reads s))) @ ''.txt'')]\<rparr>)"
proof -
  let ?r_d = "os_path_join w_d ''reproducibility''"
  let ?copies = "copies_into (strftime (clock e (reads s))) es (py_files es) []"
  let ?s2 = "s\<lparr>root := with_destination Q ds ?copies (root s), reads := Suc (reads s)\<rparr>"
  have pc: "and_then (prepare_directory ?r_d) (\<lambda>u. save_files_rootdir e ?r_d [''.py'']) s
            = (Inr (), ?s2)"
    using w root Q r src by (rule run_two)
  have rd: "resolve ?r_d = Inr (Q @ [''reproducibility''])" using w by (rule resolve_destination)
  have P2: "lookup (root ?s2) (Q @ [''reproducibility'']) = Some (Dir ?copies)"
    using Q by (simp add: lookup_with_destination)
  have free2: "map_of ?copies (''git_commit_'' @ strftime (clock e (reads ?s2)) @ ''.txt'')
               \<noteq> Some (Dir ys)" for ys
    using src by (rule copies_free)
  have g: "save_git_commit_to_file e ?r_d ?s2 =
     (Inr True,
      s\<lparr>root := with_destination Q ds
          (AList.update (''git_commit_'' @ strftime (clock e (Suc (reads s))) @ ''.txt'')
             (File (concat (descriptor_lines (recorded_project_name e) (strip b) (strip h))))
             ?copies) (root s),
        reads := Suc (Suc (reads s)),
        printed := printed s @
          [''Git information saved to '' @
           os_path_join ?r_d (''git_commit_'' @ strftime (clock e (Suc (reads s))) @ ''.txt'')]\<rparr>)"
    using recorder_writes [OF rd P2 inside head branch free2] Q
    by (simp add: store_with_destination del: store.simps)
  have "and_then (and_then (prepare_directory ?r_d)
                    (\<lambda>u. save_files_rootdir e ?r_d [''.py'']))
          (\<lambda>u. save_git_commit_to_file e ?r_d) s = (Inr True, snd (save_git_commit_to_file e ?r_d ?s2))"
    using pc g by (simp add: and_then_def)
  then show ?thesis unfolding and_then_assoc g by simp
qed

lemma run_all:
  assumes w: "resolve w_d = Inr Q" and root: "root s = Dir es"
    and Q: "lookup (root s) Q = Some (Dir ds)"
    and r: "map_of ds ''reproducibility'' = None \<or>
         (\<exists>old. map_of ds ''reproducibility'' = Some (Dir old))"
    and src: "\<And>f. f \<in> set (map fst es) \<Longrightarrow> endswith f ''.py'' \<Longrightarrow>
              plain_name f \<and> (\<exists>c. map_of es f = Some (File c))"
    and inside: "subprocess e False [''git'', ''rev-parse'', ''--is-inside-work-tree'']
                 = Exited 0 o1 e1"
    and head: "subprocess e False [''git'', ''rev-parse'', ''HEAD''] = Exited 0 (Encoded h) e2"
    and branch: "subprocess e False [''git'', ''rev-parse'', ''--abbrev-ref'', ''HEAD'']
                 = Exited 0 (Encoded b) e3"
    and listing: "subprocess e (platform_system e = ''Windows'')
          [if platform_system e = ''Windows''
           then (if conda_bat_exists e then ''conda.bat'' else ''conda'') else ''conda'',
           ''info'', ''--envs''] = Exited 0 (Encoded out) (Encoded err)"
    and found: "find_current_env (split_on CHR 0x0A (strip out)) s = (Inr (Some current_env), s)"
    and nonempty: "current_env \<noteq> []"
    and export: "subprocess e (platform_system e = ''Windows'')
          [''conda'', ''env'', ''export'', ''-n'', current_env, ''--no-builds'']
          = Exited 0 (Encoded manifest) (Encoded err')"
  shows "make_workflow_reproducible e w_d s =
     (Inr (),
      s\<lparr>root := with_destination Q ds
          (AList.update (''conda_env_'' @ strftime (clock e (Suc (Suc (reads s)))) @ ''.yml'')
             (File manifest)
          (AList.update (''git_commit_'' @ strftime (clock e (Suc (reads s))) @ ''.txt'')
             (File (concat (descriptor_lines (recorded_project_name e) (strip b) (strip h))))
             (copies_into (strftime (clock e (reads s))) es (py_files es) []))) (root s),
        reads := Suc (Suc (Suc (reads s))),
        printed := printed s @
          [''Git information saved to '' @
           os_path_join (os_path_join w_d ''reproducibility'')
             (''git_commit_'' @ strftime (clock e (Suc (reads s))) @ ''.txt''),
           ''Running command: conda env export -n '' @ current_env @ '' --no-builds'',
           ''Environment exported to '' @
           os_path_join (os_path_join w_d ''reproducibility'')
             (''conda_env_'' @ current_env @ ''_'' @
              strftime (clock e (Suc (Suc (reads s)))) @ ''.yml'')]\<rparr>)"
proof -
  let ?r_d = "os_path_join w_d ''reproducibility''"
  let ?gname = "''git_commit_'' @ strftime (clock e (Suc (reads s))) @ ''.txt''"
  let ?entries = "AList.update ?gname
             (File (concat (descriptor_lines (recorded_project_name e) (strip b) (strip h))))
             (copies_into (strftime (clock e (reads s))) es (py_files es) [])"
  let ?s3 = "s\<lparr>root := with_destination Q ds ?entries (root s),
        reads := Suc (Suc (reads s)),
        printed := printed s @ [''Git information saved to '' @ os_path_join ?r_d ?gname]\<rparr>"
  have three: "and_then (prepare_directory ?r_d) (\<lambda>u.
         and_then (save_files_rootdir e ?r_d [''.py'']) (\<lambda>u.
         save_git_commit_to_file e ?r_d)) s = (Inr True, ?s3)"
    using w root Q r src inside head branch by (rule run_three)
  have rd: "resolve ?r_d = Inr (Q @ [''reproducibility''])" using w by (rule resolve_destination)
  have P3: "lookup (root ?s3) (Q @ [''reproducibility'']) = Some (Dir ?entries)"
    using Q by (simp add: lookup_with_destination)
  have found3: "find_current_env (split_on CHR 0x0A (strip out)) ?s3 = (Inr (Some current_env), ?s3)"
    using found by (rule find_current_env_state)
  have export3: "subprocess e (platform_system e = ''Windows'')
          ([''conda'', ''env'', ''export'', ''-n'', current_env] @
           (if \<not> False then [''--no-builds''] else []))
          = Exited 0 (Encoded manifest) (Encoded err')"
    using export by simp
  have free3: "map_of ?entries (''conda_env_'' @ strftime (clock e (reads ?s3)) @ ''.yml'')
               \<noteq> Some (Dir ys)" for ys
    using copies_free [OF src] by (simp add: AList.update_conv')
  have x: "export_conda_environment e ?r_d False ?s3 =
     (Inr None,
      s\<lparr>root := with_destination Q ds
          (AList.update (''conda_env_'' @ strftime (clock e (Suc (Suc (reads s)))) @ ''.yml'')
             (File manifest) ?entries) (root s),
        reads := Suc (Suc (Suc (reads s))),
        printed := printed s @
          [''Git information saved to '' @ os_path_join ?r_d ?gname,
           ''Running command: conda env export -n '' @ current_env @ '' --no-builds'',
           ''Environment exported to '' @
           os_path_join ?r_d
             (''conda_env_'' @ current_env @ ''_'' @
              strftime (clock e (Suc (Suc (reads s)))) @ ''.yml'')]\<rparr>)"
    using exporter_writes [OF rd P3 listing found3 nonempty export3 free3] Q
    by (simp add: store_with_destination del: store.simps)
  have "make_workflow_reproducible e w_d =
        and_then (and_then (prepare_directory ?r_d) (\<lambda>u.
           and_then (save_files_rootdir e ?r_d [''.py'']) (\<lambda>u.
           save_git_commit_to_file e ?r_d)))
          (\<lambda>saved. and_then (export_conda_environment e ?r_d False) (\<lambda>exported. ret ()))"
    by (simp add: make_workflow_reproducible_def Let_def and_then_assoc)
  then show ?thesis
    using three x by (simp add: and_then_def ret_def)
qed

lemma run_no_git:
  assumes w: "resolve w_d = Inr Q" and root: "root s = Dir es"
    and Q: "lookup (root s) Q = Some (Dir ds)"
    and r: "map_of ds ''reproducibility'' = None \<or>
         (\<exists>old. map_of ds ''reproducibility'' = Some (Dir old))"
    and src: "\<And>f. f \<in> set (map fst es) \<Longrightarrow> endswith f ''.py'' \<Longrightarrow>
              plain_name f \<and> (\<exists>c. map_of es f = Some (File c))"
    and fails: "subprocess e False [''git'', ''rev-parse'', ''--is-inside-work-tree'']
                  = Not_started x
         \<or> (\<exists>rc out err. subprocess e False [''git'', ''rev-parse'', ''--is-inside-work-tree'']
                = Exited rc out err \<and> rc \<noteq> 0)"
    and listing: "subprocess e (platform_system e = ''Windows'')
          [if platform_system e = ''Windows''
           then (if conda_bat_exists e then ''conda.bat'' else ''conda'') else ''conda'',
           ''info'', ''--envs''] = Exited 0 (Encoded out) (Encoded err)"
    and found: "find_current_env (split_on CHR 0x0A (strip out)) s = (Inr (Some current_env), s)"
    and nonempty: "current_env \<noteq> []"
    and export: "subprocess e (platform_system e = ''Windows'')
          [''conda'', ''env'', ''export'', ''-n'', current_env, ''--no-builds'']
          = Exited 0 (Encoded manifest) (Encoded err')"
  shows "\<exists>line. make_workflow_reproducible e w_d s =
     (Inr (),
      s\<lparr>root := with_destination Q ds
          (AList.update (''conda_env_'' @ strftime (clock e (Suc (reads s))) @ ''.yml'')
             (File manifest)
             (copies_into (strftime (clock e (reads s))) es (py_files es) [])) (root s),
        reads := Suc (Suc (reads s)),
        printed := printed s @
          [line,
           ''Running command: conda env export -n '' @ current_env @ '' --no-builds'',
           ''Environment exported to '' @
           os_path_join (os_path_join w_d ''reproducibility'')
             (''conda_env_'' @ current_env @ ''_'' @
              strftime (clock e (Suc (reads s))) @ ''.yml'')]\<rparr>)"
proof -
  let ?r_d = "os_path_join w_d ''reproducibility''"
  let ?copies = "copies_into (strftime (clock e (reads s))) es (py_files es) []"
  let ?s2 = "s\<lparr>root := with_destination Q ds ?copies (root s), reads := Suc (reads s)\<rparr>"
  have pc: "and_then (prepare_directory ?r_d) (\<lambda>u. save_files_rootdir e ?r_d [''.py'']) s
            = (Inr (), ?s2)"
    using w root Q r src by (rule run_two)
  from recorder_fails [OF fails, of ?r_d ?s2]
  obtain line where g: "save_git_commit_to_file e ?r_d ?s2 =
       (Inr False, ?s2\<lparr>printed := printed ?s2 @ [line]\<rparr>)"
    by blast
  let ?s3 = "?s2\<lparr>printed := printed ?s2 @ [line]\<rparr>"
  have rd: "resolve ?r_d = Inr (Q @ [''reproducibility''])" using w by (rule resolve_destination)
  have P3: "lookup (root ?s3) (Q @ [''reproducibility'']) = Some (Dir ?copies)"
    using Q by (simp add: lookup_with_destination)
  have found3: "find_current_env (split_on CHR 0x0A (strip out)) ?s3 = (Inr (Some current_env), ?s3)"
    using found by (rule find_current_env_state)
  have export3: "subprocess e (platform_system e = ''Windows'')
          ([''conda'', ''env'', ''export'', ''-n'', current_env] @
           (if \<not> False then [''--no-builds''] else []))
          = Exited 0 (Encoded manifest) (Encoded err')"
    using export by simp
  have free3: "map_of ?copies (''conda_env_'' @ strftime (clock e (reads ?s3)) @ ''.yml'')
               \<noteq> Some (Dir ys)" for ys
    using src by (rule copies_free)
  have x: "export_conda_environment e ?r_d False ?s3 =
     (Inr None,
      s\<lparr>root := with_destination Q ds
          (AList.update (''conda_env_'' @ strftime (clock e (Suc (reads s))) @ ''.yml'')
             (File manifest) ?copies) (root s),
        reads := Suc (Suc (reads s)),
        printed := printed s @
          [line,
           ''Running command: conda env export -n '' @ current_env @ '' --no-builds'',
           ''Environment exported to '' @
           os_path_join ?r_d
             (''conda_env_'' @ current_env @ ''_'' @
              strftime (clock e (Suc (reads s))) @ ''.yml'')]\<rparr>)"
    using exporter_writes [OF rd P3 listing found3 nonempty export3 free3] Q
    by (simp add: store_with_destination del: store.simps)
  have "make_workflow_reproducible e w_d s =
     (Inr (), snd (export_conda_environment e ?r_d False ?s3))"
    unfolding run_split using pc g x by (simp add: and_then_def ret_def)
  then show ?thesis unfolding x by auto
qed

section \<open>The example run\<close>

lemma example_listing_found:
  "find_current_env
     (split_on CHR 0x0A
        (strip (''# conda environments:\<newline>#\<newline>'' @ ''base     /opt/conda\<newline>'' @
                ''sci   *  /opt/conda/envs/sci\<newline>\<newline>''))) s = (Inr (Some ''sci''), s)"
  by (simp add: find_current_env_def strip_def isspace_def split_ws_def ret_def)

lemma example_sources:
  assumes "f \<in> set (map fst [(''a.py'', File a), (''b.py'', File b), (''notes.txt'', File c),
                               (''reproducibility'', Dir old)])"
    and "endswith f ''.py''"
  shows "plain_name f \<and>
         (\<exists>c'. map_of [(''a.py'', File a), (''b.py'', File b), (''notes.txt'', File c),
                        (''reproducibility'', Dir old)] f = Some (File c'))"
  using assms by (auto simp: plain_name_def endswith_def)

lemma resolve_dot: "resolve ''.'' = Inr []"
  by (simp add: resolve_def)

lemma strftime_ticking_1: "strftime (ticking_clock (Suc n)) = ''20240309_140600''"
  by (simp add: ticking_clock_def strftime_def pad2_def pad4_def digit_def)

lemma strftime_steady: "strftime (steady_clock n) = ''20240309_140559''"
  by (simp add: steady_clock_def strftime_def pad2_def pad4_def digit_def)

lemma example_run:
  "make_workflow_reproducible example_env ''.'' example_state =
     (Inr (),
      \<lparr>root = Dir [(''a.py'', File ''import b''), (''b.py'', File ''pass''),
                   (''notes.txt'', File ''to do''),
                   (''reproducibility'',
                    Dir [(''a.py_20240309_140559.txt'', File ''import b''),
                         (''b.py_20240309_140559.txt'', File ''pass''),
                         (''git_commit_20240309_140600.txt'',
                          File (concat (descriptor_lines ''demo'' ''main'' ''abc123''))),
                         (''conda_env_20240309_140600.yml'', File ''name: sci\<newline>'')])],
       reads = 3,
       printed =
         [''Git information saved to ./reproducibility/git_commit_20240309_140600.txt'',
          ''Running command: conda env export -n sci --no-builds'',
          ''Environment exported to ./reproducibility/conda_env_sci_20240309_140600.yml'']\<rparr>)"
proof -
  have root: "root example_state =
      Dir [(''a.py'', File ''import b''), (''b.py'', File ''pass''), (''notes.txt'', File ''to do''),
           (''reproducibility'', Dir [(''a.py_20240101_000000.txt'', File ''old'')])]"
    by (simp add: example_state_def)
  have Q: "lookup (root example_state) [] =
      Some (Dir [(''a.py'', File ''import b''), (''b.py'', File ''pass''), (''notes.txt'', File ''to do''),
           (''reproducibility'', Dir [(''a.py_20240101_000000.txt'', File ''old'')])])"
    by (simp add: example_state_def)
  have r: "map_of [(''a.py'', File ''import b''), (''b.py'', File ''pass''), (''notes.txt'', File ''to do''),
           (''reproducibility'', Dir [(''a.py_20240101_000000.txt'', File ''old'')])]
           ''reproducibility'' = None \<or>
     (\<exists>old. map_of [(''a.py'', File ''import b''), (''b.py'', File ''pass''), (''notes.txt'', File ''to do''),
           (''reproducibility'', Dir [(''a.py_20240101_000000.txt'', File ''old'')])]
           ''reproducibility'' = Some (Dir old))"
    by simp
  have inside: "subprocess example_env False [''git'', ''rev-parse'', ''--is-inside-work-tree'']
      = Exited 0 (Encoded ''true\<newline>'') (Encoded [])"
    and head: "subprocess example_env False [''git'', ''rev-parse'', ''HEAD'']
      = Exited 0 (Encoded ''abc123\<newline>'') (Encoded [])"
    and branch: "subprocess example_env False [''git'', ''rev-parse'', ''--abbrev-ref'', ''HEAD'']
      = Exited 0 (Encoded ''main\<newline>'') (Encoded [])"
    and listing: "subprocess example_env (platform_system example_env = ''Windows'')
          [if platform_system example_env = ''Windows''
           then (if conda_bat_exists example_env then ''conda.bat'' else ''conda'') else ''conda'',
           ''info'', ''--envs''] =
        Exited 0 (Encoded (''# conda environments:\<newline>#\<newline>'' @ ''base     /opt/conda\<newline>'' @
                ''sci   *  /opt/conda/envs/sci\<newline>\<newline>'')) (Encoded [])"
    and export: "subprocess example_env (platform_system example_env = ''Windows'')
          [''conda'', ''env'', ''export'', ''-n'', ''sci'', ''--no-builds'']
          = Exited 0 (Encoded ''name: sci\<newline>'') (Encoded [])"
    by (simp_all add: example_env_def example_tools_def)
  have ne: "''sci'' \<noteq> []" by simp
  note src = example_sources [of _ "''import b''" "''pass''" "''to do''"
      "[(''a.py_20240101_000000.txt'', File ''old'')]"]
  note R = run_all [OF resolve_dot root Q r src inside head branch listing
      example_listing_found ne export]
  have n: "recorded_project_name example_env = ''demo''"
    by (simp add: recorded_project_name_def example_env_def
        example_tools_def strip_def isspace_def project_name_of_url_def os_path_basename_def
        endswith_def)
  have s: "strip ''abc123\<newline>'' = ''abc123''" "strip ''main\<newline>'' = ''main''"
    by (simp_all add: strip_def isspace_def)
  have c: "clock example_env = ticking_clock" "reads example_state = 0"
    by (simp_all add: example_env_def example_state_def)
  show ?thesis
    using R unfolding n s c strftime_ticking_0 strftime_ticking_1
    by (simp add: example_state_def with_destination_def py_files_def endswith_def
        os_path_join_def)
qed

section \<open>Timestamps of the artifacts\<close>

lemma prepare_empties:
  assumes "resolve p = Inr (Q @ [r])" and "lookup (root s) (Q @ [r]) = Some (Dir old)"
  shows "\<exists>s'. prepare_directory p s = (Inr (), s') \<and>
              lookup (root s') (Q @ [r]) = Some (Dir []) \<and>
              os_listdir p s' = (Inr [], s')"
proof -
  from assms(2) obtain ds where Q: "lookup (root s) Q = Some (Dir ds)"
    and r: "map_of ds r = Some (Dir old)"
    by (cases "lookup (root s) Q"; cases "the (lookup (root s) Q)")
       (auto simp: lookup_append split: option.splits)
  let ?s' = "s\<lparr>root := store Q (Dir (AList.update r (Dir []) (AList.delete r ds))) (root s)\<rparr>"
  have run: "prepare_directory p s = (Inr (), ?s')"
    using assms(1) Q r by (intro prepare_ok) auto
  have l: "lookup (root ?s') (Q @ [r]) = Some (Dir [])"
    using Q by (simp add: lookup_append lookup_store_same AList.update_conv')
  then have "os_listdir p ?s' = (Inr [], ?s')"
    using assms(1) by (simp add: os_listdir_def)
  with run l show ?thesis by blast
qed

text \<open>
  Claim C1, as amended. No timestamp is fixed at the start of a run: each component reads
  the clock itself when it runs. In a run whose three components succeed, the entries of
  the destination are the copies of the selected sources, all named with the first clock
  reading of the run, the descriptor, named with the second, and the manifest, named with
  the third. So all artifacts of the run carry the same timestamp exactly when the three
  readings fall in the same second.
\<close>

theorem artifact_timestamps:
  assumes "resolve w_d = Inr Q" and "root s = Dir es"
    and "lookup (root s) Q = Some (Dir ds)"
    and "map_of ds ''reproducibility'' = None \<or>
         (\<exists>old. map_of ds ''reproducibility'' = Some (Dir old))"
    and "\<And>f. f \<in> set (map fst es) \<Longrightarrow> endswith f ''.py'' \<Longrightarrow>
              plain_name f \<and> (\<exists>c. map_of es f = Some (File c))"
    and "subprocess e False [''git'', ''rev-parse'', ''--is-inside-work-tree'']
                 = Exited 0 o1 e1"
    and "subprocess e False [''git'', ''rev-parse'', ''HEAD''] = Exited 0 (Encoded h) e2"
    and "subprocess e False [''git'', ''rev-parse'', ''--abbrev-ref'', ''HEAD'']
                 = Exited 0 (Encoded b) e3"
    and "subprocess e (platform_system e = ''Windows'')
          [if platform_system e = ''Windows''
           then (if conda_bat_exists e then ''conda.bat'' else ''conda'') else ''conda'',
           ''info'', ''--envs''] = Exited 0 (Encoded out) (Encoded err)"
    and "find_current_env (split_on CHR 0x0A (strip out)) s = (Inr (Some current_env), s)"
    and "current_env \<noteq> []"
    and "subprocess e (platform_system e = ''Windows'')
          [''conda'', ''env'', ''export'', ''-n'', current_env, ''--no-builds'']
          = Exited 0 (Encoded manifest) (Encoded err')"
  shows "\<exists>s' xs. make_workflow_reproducible e w_d s = (Inr (), s') \<and>
     lookup (root s') (Q @ [''reproducibility'']) = Some (Dir xs) \<and>
     fst ` set xs =
       (\<lambda>f. f @ ''_'' @ strftime (clock e (reads s)) @ ''.txt'') ` set (py_files es) \<union>
       {''git_commit_'' @ strftime (clock e (Suc (reads s))) @ ''.txt'',
        ''conda_env_'' @ strftime (clock e (Suc (Suc (reads s)))) @ ''.yml''}"
proof -
  have files: "\<exists>c. map_of es f = Some (File c)" if "f \<in> set (py_files es)" for f
    using that assms(5) [of f] by (simp add: py_files_def)
  have names: "fst ` set (copies_into ts es (py_files es) []) =
        (\<lambda>f. f @ ''_'' @ ts @ ''.txt'') ` set (py_files es)" for ts
    using copies_names [of "py_files es" es ts "[]"] files by simp
  let ?xs = "AList.update (''conda_env_'' @ strftime (clock e (Suc (Suc (reads s)))) @ ''.yml'')
             (File manifest)
          (AList.update (''git_commit_'' @ strftime (clock e (Suc (reads s))) @ ''.txt'')
             (File (concat (descriptor_lines (recorded_project_name e) (strip b) (strip h))))
             (copies_into (strftime (clock e (reads s))) es (py_files es) []))"
  obtain s' where run: "make_workflow_reproducible e w_d s = (Inr (), s')"
    and root': "root s' = with_destination Q ds ?xs (root s)"
    using run_all [OF assms(1-4) assms(5) assms(6-12)] by simp
  have "lookup (root s') (Q @ [''reproducibility'']) = Some (Dir ?xs)"
    unfolding root' using assms(3) by (rule lookup_with_destination)
  moreover have "fst ` set ?xs =
       (\<lambda>f. f @ ''_'' @ strftime (clock e (reads s)) @ ''.txt'') ` set (py_files es) \<union>
       {''git_commit_'' @ strftime (clock e (Suc (reads s))) @ ''.txt'',
        ''conda_env_'' @ strftime (clock e (Suc (Suc (reads s)))) @ ''.yml''}"
    unfolding AList.dom_update names by auto
  ultimately show ?thesis using run by blast
qed

lemma example_root:
  "root example_state =
      Dir [(''a.py'', File ''import b''), (''b.py'', File ''pass''), (''notes.txt'', File ''to do''),
           (''reproducibility'', Dir [(''a.py_20240101_000000.txt'', File ''old'')])]"
  "lookup (root example_state) [] =
      Some (Dir [(''a.py'', File ''import b''), (''b.py'', File ''pass''), (''notes.txt'', File ''to do''),
           (''reproducibility'', Dir [(''a.py_20240101_000000.txt'', File ''old'')])])"
  "map_of [(''a.py'', File ''import b''), (''b.py'', File ''pass''), (''notes.txt'', File ''to do''),
           (''reproducibility'', Dir [(''a.py_20240101_000000.txt'', File ''old'')])]
           ''reproducibility'' = None \<or>
     (\<exists>old. map_of [(''a.py'', File ''import b''), (''b.py'', File ''pass''), (''notes.txt'', File ''to do''),
           (''reproducibility'', Dir [(''a.py_20240101_000000.txt'', File ''old'')])]
           ''reproducibility'' = Some (Dir old))"
  by (simp_all add: example_state_def)

lemmas example_src = example_sources [of _ "''import b''" "''pass''" "''to do''"
      "[(''a.py_20240101_000000.txt'', File ''old'')]"]

lemma example_py_files:
  "py_files [(''a.py'', File a), (''b.py'', File b), (''notes.txt'', File c),
             (''reproducibility'', Dir old)] = [''a.py'', ''b.py'']"
  by (simp add: py_files_def endswith_def)

theorem artifact_timestamps_witness:
  "\<exists>s' xs. make_workflow_reproducible steady_env ''.'' example_state = (Inr (), s') \<and>
     lookup (root s') [''reproducibility''] = Some (Dir xs) \<and>
     fst ` set xs =
       {''a.py_20240309_140559.txt'', ''b.py_20240309_140559.txt'',
        ''git_commit_20240309_140559.txt'', ''conda_env_20240309_140559.yml''}"
proof -
  have inside: "subprocess steady_env False [''git'', ''rev-parse'', ''--is-inside-work-tree'']
      = Exited 0 (Encoded ''true\<newline>'') (Encoded [])"
    and head: "subprocess steady_env False [''git'', ''rev-parse'', ''HEAD'']
      = Exited 0 (Encoded ''abc123\<newline>'') (Encoded [])"
    and branch: "subprocess steady_env False [''git'', ''rev-parse'', ''--abbrev-ref'', ''HEAD'']
      = Exited 0 (Encoded ''main\<newline>'') (Encoded [])"
    and listing: "subprocess steady_env (platform_system steady_env = ''Windows'')
          [if platform_system steady_env = ''Windows''
           then (if conda_bat_exists steady_env then ''conda.bat'' else ''conda'') else ''conda'',
           ''info'', ''--envs''] =
        Exited 0 (Encoded (''# conda environments:\<newline>#\<newline>'' @ ''base     /opt/conda\<newline>'' @
                ''sci   *  /opt/conda/envs/sci\<newline>\<newline>'')) (Encoded [])"
    and export: "subprocess steady_env (platform_system steady_env = ''Windows'')
          [''conda'', ''env'', ''export'', ''-n'', ''sci'', ''--no-builds'']
          = Exited 0 (Encoded ''name: sci\<newline>'') (Encoded [])"
    by (simp_all add: steady_env_def example_env_def example_tools_def)
  have ne: "''sci'' \<noteq> []" by simp
  have c: "clock steady_env = steady_clock"
    by (simp add: steady_env_def)
  show ?thesis
    using artifact_timestamps [OF resolve_dot example_root example_src inside head branch
        listing example_listing_found ne export]
    unfolding c strftime_steady example_py_files
    by (simp add: insert_commute)
qed

theorem artifact_timestamps_counterexample:
  "entry_names (root (snd (make_workflow_reproducible example_env ''.'' example_state)))
     [''reproducibility''] =
   [''a.py_20240309_140559.txt'', ''b.py_20240309_140559.txt'',
    ''git_commit_20240309_140600.txt'', ''conda_env_20240309_140600.yml'']"
  by (simp add: example_run entry_names_def)

section \<open>A run outside version control\<close>

text \<open>
  Claim C4, as amended. Lines 31 to 34 run the check for a working tree with
  \<^verbatim>\<open>check=True\<close> and never read what it prints. When the check fails (the tool
  cannot be started, or it exits with a code other than 0, as it does outside every
  repository), the recorder returns False and changes nothing but the printed lines, on
  every directory argument and state: it writes no descriptor. In a run, the copier has
  run before it and the exporter runs after it: when those two succeed, the run completes
  and the destination holds the copies of the sources and the manifest, and nothing else.
  Where the check exits with 0 the recorder goes on, whatever the check prints: see the
  directory \<^verbatim>\<open>.git\<close> below.
\<close>

theorem no_version_control:
  assumes "subprocess e False [''git'', ''rev-parse'', ''--is-inside-work-tree'']
                  = Not_started x
         \<or> (\<exists>rc out err. subprocess e False [''git'', ''rev-parse'', ''--is-inside-work-tree'']
                = Exited rc out err \<and> rc \<noteq> 0)"
    and "resolve w_d = Inr Q" and "root s = Dir es"
    and "lookup (root s) Q = Some (Dir ds)"
    and "map_of ds ''reproducibility'' = None \<or>
         (\<exists>old. map_of ds ''reproducibility'' = Some (Dir old))"
    and "\<And>f. f \<in> set (map fst es) \<Longrightarrow> endswith f ''.py'' \<Longrightarrow>
              plain_name f \<and> (\<exists>c. map_of es f = Some (File c))"
    and "subprocess e (platform_system e = ''Windows'')
          [if platform_system e = ''Windows''
           then (if conda_bat_exists e then ''conda.bat'' else ''conda'') else ''conda'',
           ''info'', ''--envs''] = Exited 0 (Encoded out) (Encoded err)"
    and "find_current_env (split_on CHR 0x0A (strip out)) s = (Inr (Some current_env), s)"
    and "current_env \<noteq> []"
    and "subprocess e (platform_system e = ''Windows'')
          [''conda'', ''env'', ''export'', ''-n'', current_env, ''--no-builds'']
          = Exited 0 (Encoded manifest) (Encoded err')"
  shows "(\<exists>line. save_git_commit_to_file e d s0 =
                  (Inr False, s0\<lparr>printed := printed s0 @ [line]\<rparr>)) \<and>
         (\<exists>s'. make_workflow_reproducible e w_d s = (Inr (), s') \<and>
            lookup (root s') (Q @ [''reproducibility'']) =
              Some (Dir (AList.update
                 (''conda_env_'' @ strftime (clock e (Suc (reads s))) @ ''.yml'')
                 (File manifest)
                 (copies_into (strftime (clock e (reads s))) es (py_files es) []))))"
proof
  show "\<exists>line. save_git_commit_to_file e d s0 =
                  (Inr False, s0\<lparr>printed := printed s0 @ [line]\<rparr>)"
    using recorder_fails [OF assms(1), of d s0] by blast
next
  let ?xs = "AList.update
                 (''conda_env_'' @ strftime (clock e (Suc (reads s))) @ ''.yml'')
                 (File manifest)
                 (copies_into (strftime (clock e (reads s))) es (py_files es) [])"
  obtain s' where run: "make_workflow_reproducible e w_d s = (Inr (), s')"
    and root': "root s' = with_destination Q ds ?xs (root s)"
    using run_no_git [OF assms(2-5) assms(6) assms(1) assms(7-10)] by auto
  have "lookup (root s') (Q @ [''reproducibility'']) = Some (Dir ?xs)"
    unfolding root' using assms(4) by (rule lookup_with_destination)
  with run show "\<exists>s'. make_workflow_reproducible e w_d s = (Inr (), s') \<and>
            lookup (root s') (Q @ [''reproducibility'']) = Some (Dir ?xs)"
    by blast
qed

theorem no_version_control_witness:
  "(\<exists>line. save_git_commit_to_file no_git_env ''reproducibility'' example_state =
        (Inr False, example_state\<lparr>printed := printed example_state @ [line]\<rparr>)) \<and>
   (\<exists>s'. make_workflow_reproducible no_git_env ''.'' example_state = (Inr (), s') \<and>
      lookup (root s') [''reproducibility''] =
        Some (Dir [(''a.py_20240309_140559.txt'', File ''import b''),
                   (''b.py_20240309_140559.txt'', File ''pass''),
                   (''conda_env_20240309_140600.yml'', File ''name: sci\<newline>'')]))"
proof -
  have fails: "subprocess no_git_env False [''git'', ''rev-parse'', ''--is-inside-work-tree'']
                  = Not_started FileNotFoundError
         \<or> (\<exists>rc out err. subprocess no_git_env False
                [''git'', ''rev-parse'', ''--is-inside-work-tree'']
                = Exited rc out err \<and> rc \<noteq> 0)"
    by (simp add: no_git_env_def)
  have listing: "subprocess no_git_env (platform_system no_git_env = ''Windows'')
          [if platform_system no_git_env = ''Windows''
           then (if conda_bat_exists no_git_env then ''conda.bat'' else ''conda'') else ''conda'',
           ''info'', ''--envs''] =
        Exited 0 (Encoded (''# conda environments:\<newline>#\<newline>'' @ ''base     /opt/conda\<newline>'' @
                ''sci   *  /opt/conda/envs/sci\<newline>\<newline>'')) (Encoded [])"
    and export: "subprocess no_git_env (platform_system no_git_env = ''Windows'')
          [''conda'', ''env'', ''export'', ''-n'', ''sci'', ''--no-builds'']
          = Exited 0 (Encoded ''name: sci\<newline>'') (Encoded [])"
    by (simp_all add: no_git_env_def example_env_def example_tools_def)
  have ne: "''sci'' \<noteq> []" by simp
  have c: "clock no_git_env = ticking_clock" "reads example_state = 0"
    by (simp_all add: no_git_env_def example_env_def example_state_def)
  show ?thesis
    using no_version_control [OF fails resolve_dot example_root example_src listing
        example_listing_found ne export, of "''reproducibility''" example_state]
    unfolding c strftime_ticking_0 strftime_ticking_1 example_py_files
    by simp
qed

text \<open>
  Inside the directory \<^verbatim>\<open>.git\<close> of a repository, or in a bare repository, the
  working directory is not inside a working tree: the check prints \<^verbatim>\<open>false\<close>, and
  exits with 0. The recorder does not fail there: it returns True and writes the
  descriptor.
\<close>

theorem no_version_control_counterexample:
  "save_git_commit_to_file git_dir_env ''reproducibility'' git_dir_state =
     (Inr True,
      \<lparr>root = Dir [(''HEAD'', File ''ref: refs/heads/main\<newline>''), (''config'', File []),
                   (''reproducibility'',
                    Dir [(''git_commit_20240309_140559.txt'',
                          File (''Project Name: demo\<newline>'' @
                                ''Branch Name: main\<newline>'' @
                                ''Commit Hash: abc123\<newline>'' @
                                ''View single commit: https://github.com/<user>/demo/commit/abc123\<newline>'' @
                                ''View log: https://github.com/<user>/demo/commits/abc123\<newline>'' @
                                ''/!'' @ [CHR 0x5C] @
                                '' the files in the directory may have been modified since the last commit!!\<newline>''))])],
       reads = 1,
       printed = [''Git information saved to reproducibility/git_commit_20240309_140559.txt'']\<rparr>)"
proof -
  have r: "resolve ''reproducibility'' = Inr [''reproducibility'']"
    by (simp add: resolve_def)
  have l: "lookup (root git_dir_state) [''reproducibility''] = Some (Dir [])"
    by (simp add: git_dir_state_def)
  have q: "subprocess git_dir_env False [''git'', ''rev-parse'', ''--is-inside-work-tree'']
             = Exited 0 (Encoded ''false\<newline>'') (Encoded [])"
      "subprocess git_dir_env False [''git'', ''rev-parse'', ''HEAD'']
             = Exited 0 (Encoded ''abc123\<newline>'') (Encoded [])"
      "subprocess git_dir_env False [''git'', ''rev-parse'', ''--abbrev-ref'', ''HEAD'']
             = Exited 0 (Encoded ''main\<newline>'') (Encoded [])"
    by (simp_all add: git_dir_env_def example_env_def example_tools_def)
  have c: "clock git_dir_env (reads git_dir_state) = ticking_clock 0"
    by (simp add: git_dir_env_def example_env_def git_dir_state_def)
  have f: "\<And>ys. map_of []
              (''git_commit_'' @ strftime (clock git_dir_env (reads git_dir_state)) @ ''.txt'')
            \<noteq> Some (Dir ys)"
    by simp
  have s: "strip ''abc123\<newline>'' = ''abc123''" "strip ''main\<newline>'' = ''main''"
    by (simp_all add: strip_def isspace_def)
  have n: "recorded_project_name git_dir_env = ''demo''"
    by (simp add: recorded_project_name_def git_dir_env_def example_env_def
        example_tools_def strip_def isspace_def project_name_of_url_def os_path_basename_def
        endswith_def)
  show ?thesis
    using recorder_writes [OF r l q f] unfolding n s c strftime_ticking_0
    by (simp add: git_dir_state_def descriptor_lines_def os_path_join_def endswith_def)
qed

section \<open>Runs against an existing destination\<close>

text \<open>
  Claim C5. At every path of the tree at which a directory exists, whatever it holds,
  \<^verbatim>\<open>prepare_directory\<close> (lines 180 to 182) completes and leaves an empty directory
  there. Hence a run against a destination that an earlier run has filled, when its three
  components succeed, ends with a destination that holds the copies, the descriptor and
  the manifest of this run and nothing of the earlier content.
\<close>

theorem prepare_resets_destination:
  assumes "resolve p = Inr (P @ [n])" and "lookup (root s0) (P @ [n]) = Some (Dir old0)"
    and "resolve w_d = Inr Q" and "root s = Dir es"
    and "lookup (root s) Q = Some (Dir ds)"
    and "map_of ds ''reproducibility'' = Some (Dir old)"
    and "\<And>f. f \<in> set (map fst es) \<Longrightarrow> endswith f ''.py'' \<Longrightarrow>
              plain_name f \<and> (\<exists>c. map_of es f = Some (File c))"
    and "subprocess e False [''git'', ''rev-parse'', ''--is-inside-work-tree'']
                 = Exited 0 o1 e1"
    and "subprocess e False [''git'', ''rev-parse'', ''HEAD''] = Exited 0 (Encoded h) e2"
    and "subprocess e False [''git'', ''rev-parse'', ''--abbrev-ref'', ''HEAD'']
                 = Exited 0 (Encoded b) e3"
    and "subprocess e (platform_system e = ''Windows'')
          [if platform_system e = ''Windows''
           then (if conda_bat_exists e then ''conda.bat'' else ''conda'') else ''conda'',
           ''info'', ''--envs''] = Exited 0 (Encoded out) (Encoded err)"
    and "find_current_env (split_on CHR 0x0A (strip out)) s = (Inr (Some current_env), s)"
    and "current_env \<noteq> []"
    and "subprocess e (platform_system e = ''Windows'')
          [''conda'', ''env'', ''export'', ''-n'', current_env, ''--no-builds'']
          = Exited 0 (Encoded manifest) (Encoded err')"
  shows "(\<exists>s1. prepare_directory p s0 = (Inr (), s1) \<and>
               lookup (root s1) (P @ [n]) = Some (Dir []) \<and>
               os_listdir p s1 = (Inr [], s1)) \<and>
         (\<exists>s'. make_workflow_reproducible e w_d s = (Inr (), s') \<and>
            lookup (root s') (Q @ [''reproducibility'']) =
              Some (Dir (AList.update
                 (''conda_env_'' @ strftime (clock e (Suc (Suc (reads s)))) @ ''.yml'')
                 (File manifest)
                (AList.update
                 (''git_commit_'' @ strftime (clock e (Suc (reads s))) @ ''.txt'')
                 (File (concat (descriptor_lines (recorded_project_name e) (strip b) (strip h))))
                 (copies_into (strftime (clock e (reads s))) es (py_files es) [])))))"
proof
  show "\<exists>s1. prepare_directory p s0 = (Inr (), s1) \<and>
               lookup (root s1) (P @ [n]) = Some (Dir []) \<and>
               os_listdir p s1 = (Inr [], s1)"
    using assms(1,2) by (rule prepare_empties)
next
  let ?xs = "AList.update
                 (''conda_env_'' @ strftime (clock e (Suc (Suc (reads s)))) @ ''.yml'')
                 (File manifest)
                (AList.update
                 (''git_commit_'' @ strftime (clock e (Suc (reads s))) @ ''.txt'')
                 (File (concat (descriptor_lines (recorded_project_name e) (strip b) (strip h))))
                 (copies_into (strftime (clock e (reads s))) es (py_files es) []))"
  have r: "map_of ds ''reproducibility'' = None \<or>
         (\<exists>old. map_of ds ''reproducibility'' = Some (Dir old))"
    using assms(6) by simp
  obtain s' where run: "make_workflow_reproducible e w_d s = (Inr (), s')"
    and root': "root s' = with_destination Q ds ?xs (root s)"
    using run_all [OF assms(3-5) r assms(7) assms(8-14)] by simp
  have "lookup (root s') (Q @ [''reproducibility'']) = Some (Dir ?xs)"
    unfolding root' using assms(5) by (rule lookup_with_destination)
  with run show "\<exists>s'. make_workflow_reproducible e w_d s = (Inr (), s') \<and>
            lookup (root s') (Q @ [''reproducibility'']) = Some (Dir ?xs)"
    by blast
qed

theorem prepare_resets_destination_witness:
  "(\<exists>s1. prepare_directory ''./reproducibility'' example_state = (Inr (), s1) \<and>
               lookup (root s1) [''reproducibility''] = Some (Dir []) \<and>
               os_listdir ''./reproducibility'' s1 = (Inr [], s1)) \<and>
   (\<exists>s'. make_workflow_reproducible example_env ''.'' example_state = (Inr (), s') \<and>
      lookup (root s') [''reproducibility''] =
        Some (Dir [(''a.py_20240309_140559.txt'', File ''import b''),
                   (''b.py_20240309_140559.txt'', File ''pass''),
                   (''git_commit_20240309_140600.txt'',
                    File (concat (descriptor_lines ''demo'' ''main'' ''abc123''))),
                   (''conda_env_20240309_140600.yml'', File ''name: sci\<newline>'')]))"
proof -
  have p: "resolve ''./reproducibility'' = Inr ([] @ [''reproducibility''])"
    by (simp add: resolve_def)
  have old: "lookup (root example_state) ([] @ [''reproducibility'']) =
             Some (Dir [(''a.py_20240101_000000.txt'', File ''old'')])"
    by (simp add: example_state_def)
  have r: "map_of [(''a.py'', File ''import b''), (''b.py'', File ''pass''),
                   (''notes.txt'', File ''to do''),
                   (''reproducibility'', Dir [(''a.py_20240101_000000.txt'', File ''old'')])]
             ''reproducibility'' = Some (Dir [(''a.py_20240101_000000.txt'', File ''old'')])"
    by simp
  have inside: "subprocess example_env False [''git'', ''rev-parse'', ''--is-inside-work-tree'']
      = Exited 0 (Encoded ''true\<newline>'') (Encoded [])"
    and head: "subprocess example_env False [''git'', ''rev-parse'', ''HEAD'']
      = Exited 0 (Encoded ''abc123\<newline>'') (Encoded [])"
    and branch: "subprocess example_env False [''git'', ''rev-parse'', ''--abbrev-ref'', ''HEAD'']
      = Exited 0 (Encoded ''main\<newline>'') (Encoded [])"
    and listing: "subprocess example_env (platform_system example_env = ''Windows'')
          [if platform_system example_env = ''Windows''
           then (if conda_bat_exists example_env then ''conda.bat'' else ''conda'') else ''conda'',
           ''info'', ''--envs''] =
        Exited 0 (Encoded (''# conda environments:\<newline>#\<newline>'' @ ''base     /opt/conda\<newline>'' @
                ''sci   *  /opt/conda/envs/sci\<newline>\<newline>'')) (Encoded [])"
    and export: "subprocess example_env (platform_system example_env = ''Windows'')
          [''conda'', ''env'', ''export'', ''-n'', ''sci'', ''--no-builds'']
          = Exited 0 (Encoded ''name: sci\<newline>'') (Encoded [])"
    by (simp_all add: example_env_def example_tools_def)
  have ne: "''sci'' \<noteq> []" by simp
  have n: "recorded_project_name example_env = ''demo''"
    by (simp add: recorded_project_name_def example_env_def
        example_tools_def strip_def isspace_def project_name_of_url_def os_path_basename_def
        endswith_def)
  have s: "strip ''abc123\<newline>'' = ''abc123''" "strip ''main\<newline>'' = ''main''"
    by (simp_all add: strip_def isspace_def)
  have c: "clock example_env = ticking_clock" "reads example_state = 0"
    by (simp_all add: example_env_def example_state_def)
  show ?thesis
    using prepare_resets_destination [OF p old resolve_dot example_root(1,2) r example_src
        inside head branch listing example_listing_found ne export]
    unfolding n s c strftime_ticking_0 strftime_ticking_1 example_py_files
    by simp
qed

section \<open>A run without an active environment\<close>

lemma no_active_three:
  "and_then (prepare_directory (os_path_join ''.'' ''reproducibility'')) (\<lambda>u.
   and_then (save_files_rootdir no_active_env (os_path_join ''.'' ''reproducibility'') [''.py''])
     (\<lambda>u.
   save_git_commit_to_file no_active_env (os_path_join ''.'' ''reproducibility''))) example_state =
   (Inr True,
    \<lparr>root = Dir [(''a.py'', File ''import b''), (''b.py'', File ''pass''),
                 (''notes.txt'', File ''to do''),
                 (''reproducibility'',
                  Dir [(''a.py_20240309_140559.txt'', File ''import b''),
                       (''b.py_20240309_140559.txt'', File ''pass''),
                       (''git_commit_20240309_140600.txt'',
                        File (concat (descriptor_lines ''demo'' ''main'' ''abc123'')))])],
     reads = 2,
     printed =
       [''Git information saved to ./reproducibility/git_commit_20240309_140600.txt'']\<rparr>)"
proof -
  have inside: "subprocess no_active_env False [''git'', ''rev-parse'', ''--is-inside-work-tree'']
      = Exited 0 (Encoded ''true\<newline>'') (Encoded [])"
    and head: "subprocess no_active_env False [''git'', ''rev-parse'', ''HEAD'']
      = Exited 0 (Encoded ''abc123\<newline>'') (Encoded [])"
    and branch: "subprocess no_active_env False [''git'', ''rev-parse'', ''--abbrev-ref'', ''HEAD'']
      = Exited 0 (Encoded ''main\<newline>'') (Encoded [])"
    by (simp_all add: no_active_env_def example_env_def example_tools_def)
  have n: "recorded_project_name no_active_env = ''demo''"
    by (simp add: recorded_project_name_def no_active_env_def example_env_def
        example_tools_def strip_def isspace_def project_name_of_url_def os_path_basename_def
        endswith_def)
  have s: "strip ''abc123\<newline>'' = ''abc123''" "strip ''main\<newline>'' = ''main''"
    by (simp_all add: strip_def isspace_def)
  have c: "clock no_active_env = ticking_clock" "reads example_state = 0"
    by (simp_all add: no_active_env_def example_env_def example_state_def)
  show ?thesis
    using run_three [OF resolve_dot example_root example_src inside head branch]
    unfolding n s c strftime_ticking_0 strftime_ticking_1 example_py_files
    by (simp add: example_state_def with_destination_def os_path_join_def endswith_def
        numeral_2_eq_2)
qed

lemma no_active_listing:
  "subprocess no_active_env (platform_system no_active_env = ''Windows'')
          [if platform_system no_active_env = ''Windows''
           then (if conda_bat_exists no_active_env then ''conda.bat'' else ''conda'')
           else ''conda'',
           ''info'', ''--envs''] =
     Exited 0 (Encoded (''# conda environments:\<newline>#\<newline>'' @ ''base     /opt/conda\<newline>'' @
                ''sci      /opt/conda/envs/sci\<newline>\<newline>'')) (Encoded [])"
  "\<not> list_ex (\<lambda>line. CHR ''*'' \<in> set line)
       (split_on CHR 0x0A (strip (''# conda environments:\<newline>#\<newline>'' @
          ''base     /opt/conda\<newline>'' @ ''sci      /opt/conda/envs/sci\<newline>\<newline>'')))"
  by (simp_all add: no_active_env_def example_env_def strip_def isspace_def)

theorem no_active_environment_raises_witness:
  "export_conda_environment no_active_env ''reproducibility'' False example_state =
     (Inl (RuntimeError ''Could not determine current conda environment''), example_state) \<and>
   (\<exists>s1. make_workflow_reproducible no_active_env ''.'' example_state =
       (Inl (RuntimeError ''Could not determine current conda environment''), s1) \<and>
     lookup (root s1) [''reproducibility''] =
       Some (Dir [(''a.py_20240309_140559.txt'', File ''import b''),
                  (''b.py_20240309_140559.txt'', File ''pass''),
                  (''git_commit_20240309_140600.txt'',
                   File (concat (descriptor_lines ''demo'' ''main'' ''abc123'')))]))"
  using no_active_environment_raises [OF no_active_listing,
      of "''reproducibility''" False example_state "''.''"] no_active_three
  by auto

theorem no_active_environment_counterexample:
  "fst (make_workflow_reproducible no_active_env ''.'' example_state) =
   Inl (RuntimeError ''Could not determine current conda environment'')"
proof -
  have "export_conda_environment no_active_env (os_path_join ''.'' ''reproducibility'') False s =
        (Inl (RuntimeError ''Could not determine current conda environment''), s)" for s
    using no_active_listing by (rule export_raises)
  then show ?thesis
    using no_active_three
    by (simp add: make_workflow_reproducible_def Let_def and_then_def split: prod.splits sum.splits)
qed

text \<open>
  A listing that marks no row and still has an asterisk, in the legend of its header:
  line 126 takes the legend for the row and \<^verbatim>\<open>#\<close> for the name of the
  environment, nothing is raised, and the failing export of \<^verbatim>\<open>#\<close> is reported
  on the console.
\<close>

lemma legend_taken_for_active_row:
  "export_conda_environment legend_env ''reproducibility'' False example_state =
     (Inr None,
      example_state\<lparr>reads := 1,
        printed := [''Running command: conda env export -n # --no-builds'',
                    ''Error exporting environment: EnvironmentLocationNotFound'']\<rparr>)"
  by (simp add: export_conda_environment_def subprocess_run_text_def legend_env_def
      example_env_def example_state_def find_current_env_def strip_def isspace_def
      split_ws_def decode_def datetime_now_def print_def and_then_def ret_def Let_def)

section \<open>Further instances\<close>

lemmas eval_defs =
  make_workflow_reproducible_def prepare_directory_def save_files_rootdir_def
  shutil_copy2_def copyfile_def samefile_def
  read_file_def file_write_def open_w_def os_listdir_def os_mkdir_def shutil_rmtree_def os_path_isdir_def
  os_path_exists_def resolve_def datetime_now_def and_then_def raise_def ret_def
  os_path_basename_def os_path_join_def endswith_def Let_def

text \<open>
  Claim C9 does not hold of the program. \<^verbatim>\<open>os.listdir\<close> reports entries of every
  kind and line 167 selects by name alone, so a directory whose name ends with the filter
  is handed to \<^verbatim>\<open>shutil.copy2\<close>, which raises. Here the working directory holds
  the directory \<^verbatim>\<open>pkg.py\<close> before the file \<^verbatim>\<open>a.py\<close>: the run ends with
  \<open>IsADirectoryError\<close> raised to its caller, the destination is left empty, and neither
  the recorder nor the exporter runs.
\<close>

theorem directory_named_like_a_script:
  "make_workflow_reproducible example_env ''.'' package_dir_state =
     (Inl IsADirectoryError,
      \<lparr>root = Dir [(''pkg.py'', Dir [(''mod.py'', File ''pass'')]), (''a.py'', File ''import b''),
                   (''reproducibility'', Dir [])],
       reads = 1, printed = []\<rparr>)"
  by (simp add: eval_defs package_dir_state_def example_env_def strftime_ticking_0)


text \<open>The example export, for claim C10.\<close>

theorem export_returns_None_witness:
  "\<exists>s'. export_conda_environment example_env ''reproducibility'' False example_state =
          (Inr None, s') \<and>
     lookup (root s') [''reproducibility'', ''conda_env_20240309_140559.yml''] =
       Some (File ''name: sci\<newline>'') \<and>
     last (printed s') =
       ''Environment exported to reproducibility/conda_env_sci_20240309_140559.yml'' \<and>
     lookup (root s') [''reproducibility'', ''conda_env_sci_20240309_140559.yml''] = None"
proof -
  have r: "resolve ''reproducibility'' = Inr [''reproducibility'']"
    by (simp add: resolve_def)
  have l: "lookup (root example_state) [''reproducibility''] =
           Some (Dir [(''a.py_20240101_000000.txt'', File ''old'')])"
    by (simp add: example_state_def)
  have listing: "subprocess example_env (platform_system example_env = ''Windows'')
          [if platform_system example_env = ''Windows''
           then (if conda_bat_exists example_env then ''conda.bat'' else ''conda'') else ''conda'',
           ''info'', ''--envs''] =
        Exited 0 (Encoded (''# conda environments:\<newline>#\<newline>'' @ ''base     /opt/conda\<newline>'' @
                ''sci   *  /opt/conda/envs/sci\<newline>\<newline>'')) (Encoded [])"
    and export: "subprocess example_env (platform_system example_env = ''Windows'')
          ([''conda'', ''env'', ''export'', ''-n'', ''sci''] @
           (if \<not> False then [''--no-builds''] else []))
          = Exited 0 (Encoded ''name: sci\<newline>'') (Encoded [])"
    by (simp_all add: example_env_def example_tools_def)
  have ne: "''sci'' \<noteq> []" by simp
  have f: "\<And>ys. map_of [(''a.py_20240101_000000.txt'', File ''old'')]
              (''conda_env_'' @ strftime (clock example_env (reads example_state)) @ ''.yml'')
            \<noteq> Some (Dir ys)"
    by simp
  have c: "clock example_env (reads example_state) = ticking_clock 0"
    by (simp add: example_env_def example_state_def)
  show ?thesis
    using export_returns_None_and_names_another_file
      [OF r l listing example_listing_found ne export f]
    unfolding c strftime_ticking_0
    by (simp add: os_path_join_def endswith_def example_state_def)
qed

text \<open>The recorder without the version-control tool, for claim C3.\<close>

theorem save_git_commit_to_file_returns_bool_witness:
  "save_git_commit_to_file no_git_env ''.'' example_state =
     (Inr False, example_state\<lparr>printed := [''Error: no such file'']\<rparr>)"
  using save_git_commit_to_file_returns_bool [of no_git_env "''.''" example_state]
  by (auto simp: save_git_commit_to_file_try_def and_then_def subprocess_run_check_def raise_def
      no_git_env_def example_env_def example_state_def save_git_commit_to_file_def
      try_except_def print_def ret_def)

end
